theory Spec2Isabelle
  imports Complex_Main "HOL-Library.Word" "HOL-Library.Log_Nat"
begin

unbundle bit_operations_syntax

section \<open>JavaScript numbers and values\<close>

text \<open>
  A JavaScript number is an IEEE double. The model keeps the three non-finite values apart
  and represents a finite double by the real number it denotes. The sign of zero is not
  modelled.
\<close>

datatype jsnum = NaN | NegInfinity | Finite real | PosInfinity

subsection \<open>Rounding to a double\<close>

text \<open>
  \<open>nearest x\<close> is the double nearest to \<open>x\<close>, ties to the even significand: with
  \<open>e\<close> the exponent of \<open>x\<close> (at least \<open>-1022\<close>, so that subnormal numbers are
  covered), \<open>x\<close> is rounded to a multiple of \<open>2^(e - 52)\<close>. \<open>to_double\<close> adds the
  overflow to an infinity, from \<open>2^1024\<close> on.

  Rounded in this model are: a number literal when JSON is parsed, the constants of the
  client, the operators \<open>*\<close> and \<open>/\<close> on coordinates, the offset of a pointer from the
  canvas, the product that gives the size of the backing store, and all the arithmetic of
  the animation step on \<open>age\<close> and \<open>radius\<close>. Taken exactly are the geometry of the
  colour picker (its position and the distance \<open>Math.hypot\<close> measures) and the opacity
  \<open>MAX_PULSE_ALPHA * Math.sin(Math.PI * lifeT)\<close>, whose sine the language leaves to the
  implementation.
\<close>

definition pow2 :: "int \<Rightarrow> real" where
  "pow2 e = (if 0 \<le> e then 2 ^ nat e else 1 / 2 ^ nat (- e))"

definition round_half_even :: "real \<Rightarrow> int" where
  "round_half_even y =
     (let f = \<lfloor>y\<rfloor> in
      if y - of_int f < 1 / 2 then f
      else if 1 / 2 < y - of_int f then f + 1
      else if even f then f else f + 1)"

definition binade :: "real \<Rightarrow> int" where
  "binade x = max \<lfloor>log 2 \<bar>x\<bar>\<rfloor> (- 1022)"

definition nearest :: "real \<Rightarrow> real" where
  "nearest x =
     (let ulp = pow2 (binade x - 52)
      in sgn x * of_int (round_half_even (\<bar>x\<bar> / ulp)) * ulp)"

definition to_double :: "real \<Rightarrow> jsnum" where
  "to_double x =
     (let v = nearest x in
      if 2 ^ 1024 \<le> v then PosInfinity
      else if v \<le> - (2 ^ 1024) then NegInfinity
      else Finite v)"

subsection \<open>Operations\<close>

text \<open>\<open>Math.min\<close> and \<open>Math.max\<close> with two arguments: \<open>NaN\<close> if either is \<open>NaN\<close>.\<close>

fun js_min :: "jsnum \<Rightarrow> jsnum \<Rightarrow> jsnum" where
  "js_min NaN _ = NaN"
| "js_min _ NaN = NaN"
| "js_min NegInfinity _ = NegInfinity"
| "js_min _ NegInfinity = NegInfinity"
| "js_min PosInfinity b = b"
| "js_min a PosInfinity = a"
| "js_min (Finite a) (Finite b) = Finite (min a b)"

fun js_max :: "jsnum \<Rightarrow> jsnum \<Rightarrow> jsnum" where
  "js_max NaN _ = NaN"
| "js_max _ NaN = NaN"
| "js_max PosInfinity _ = PosInfinity"
| "js_max _ PosInfinity = PosInfinity"
| "js_max NegInfinity b = b"
| "js_max a NegInfinity = a"
| "js_max (Finite a) (Finite b) = Finite (max a b)"

text \<open>The operators \<open>*\<close> and \<open>/\<close> on doubles. A zero is read as \<open>+0\<close>.\<close>

fun js_mul :: "jsnum \<Rightarrow> jsnum \<Rightarrow> jsnum" where
  "js_mul NaN _ = NaN"
| "js_mul _ NaN = NaN"
| "js_mul (Finite a) (Finite b) = to_double (a * b)"
| "js_mul (Finite a) PosInfinity = (if a = 0 then NaN else if 0 < a then PosInfinity else NegInfinity)"
| "js_mul (Finite a) NegInfinity = (if a = 0 then NaN else if 0 < a then NegInfinity else PosInfinity)"
| "js_mul PosInfinity (Finite b) = (if b = 0 then NaN else if 0 < b then PosInfinity else NegInfinity)"
| "js_mul NegInfinity (Finite b) = (if b = 0 then NaN else if 0 < b then NegInfinity else PosInfinity)"
| "js_mul PosInfinity PosInfinity = PosInfinity"
| "js_mul NegInfinity NegInfinity = PosInfinity"
| "js_mul PosInfinity NegInfinity = NegInfinity"
| "js_mul NegInfinity PosInfinity = NegInfinity"

fun js_div :: "jsnum \<Rightarrow> jsnum \<Rightarrow> jsnum" where
  "js_div NaN _ = NaN"
| "js_div _ NaN = NaN"
| "js_div (Finite a) (Finite b) =
     (if b = 0 then (if a = 0 then NaN else if 0 < a then PosInfinity else NegInfinity)
      else to_double (a / b))"
| "js_div (Finite a) _ = Finite 0"
| "js_div PosInfinity (Finite b) = (if 0 \<le> b then PosInfinity else NegInfinity)"
| "js_div NegInfinity (Finite b) = (if 0 \<le> b then NegInfinity else PosInfinity)"
| "js_div _ _ = NaN"

subsection \<open>Values\<close>

datatype jsval =
    JUndefined
  | JNull
  | JBool bool
  | JNum jsnum
  | JStr string
  | JArr "jsval list"
  | JObj "(string \<times> jsval) list"

datatype js_error = SyntaxError | TypeError | IndexSizeError | RangeError

fun typeof :: "jsval \<Rightarrow> string" where
  "typeof JUndefined = ''undefined''"
| "typeof JNull = ''object''"
| "typeof (JBool _) = ''boolean''"
| "typeof (JNum _) = ''number''"
| "typeof (JStr _) = ''string''"
| "typeof (JArr _) = ''object''"
| "typeof (JObj _) = ''object''"

text \<open>Truthiness, as \<open>||\<close> tests it.\<close>

fun truthy :: "jsval \<Rightarrow> bool" where
  "truthy JUndefined = False"
| "truthy JNull = False"
| "truthy (JBool b) = b"
| "truthy (JNum NaN) = False"
| "truthy (JNum (Finite r)) = (r \<noteq> 0)"
| "truthy (JNum _) = True"
| "truthy (JStr s) = (s \<noteq> [])"
| "truthy (JArr _) = True"
| "truthy (JObj _) = True"

text \<open>
  Reading one of the properties \<open>type\<close>, \<open>xNorm\<close>, \<open>yNorm\<close>, \<open>color\<close> by destructuring.
  None of the four is a property of a prototype, so only an object holds them; a key
  written twice keeps its last value. Destructuring \<open>undefined\<close> or \<open>null\<close> throws.
\<close>

fun get_field :: "jsval \<Rightarrow> string \<Rightarrow> js_error + jsval" where
  "get_field JUndefined k = Inl TypeError"
| "get_field JNull k = Inl TypeError"
| "get_field (JObj kvs) k = Inr (case map_of (rev kvs) k of None \<Rightarrow> JUndefined | Some v \<Rightarrow> v)"
| "get_field _ k = Inr JUndefined"

section \<open>JSON text\<close>

text \<open>
  The text of a frame is either not JSON at all, or it is JSON, given by its syntax tree;
  a number literal is given by its mathematical value.
\<close>

datatype json =
    JsonNull
  | JsonBool bool
  | JsonNumber real
  | JsonString string
  | JsonArray "json list"
  | JsonObject "(string \<times> json) list"

datatype frame = NotJSON string | JSON json

text \<open>
  \<open>JSON.parse\<close> reads a number literal as the double nearest to it, and as an infinity
  when it is too large (\<open>JSON.parse('1e999')\<close> is \<open>Infinity\<close>); it never gives \<open>NaN\<close>.
\<close>

definition literal_value :: "real \<Rightarrow> jsnum" where
  "literal_value x = to_double x"

fun parse_json :: "json \<Rightarrow> jsval" where
  "parse_json JsonNull = JNull"
| "parse_json (JsonBool b) = JBool b"
| "parse_json (JsonNumber x) = JNum (literal_value x)"
| "parse_json (JsonString s) = JStr s"
| "parse_json (JsonArray vs) = JArr (map parse_json vs)"
| "parse_json (JsonObject kvs) = JObj (map (\<lambda>(k, v). (k, parse_json v)) kvs)"

fun JSON_parse :: "frame \<Rightarrow> js_error + jsval" where
  "JSON_parse (NotJSON s) = Inl SyntaxError"
| "JSON_parse (JSON j) = Inr (parse_json j)"

text \<open>
  \<open>JSON.stringify\<close>: a non-finite number is written \<open>null\<close>; \<open>undefined\<close> is left out
  of an object, written \<open>null\<close> in an array, and has no text of its own.
\<close>

fun stringify_json :: "jsval \<Rightarrow> json option" where
  "stringify_json JUndefined = None"
| "stringify_json JNull = Some JsonNull"
| "stringify_json (JBool b) = Some (JsonBool b)"
| "stringify_json (JNum (Finite x)) = Some (JsonNumber x)"
| "stringify_json (JNum _) = Some JsonNull"
| "stringify_json (JStr s) = Some (JsonString s)"
| "stringify_json (JArr vs) =
     Some (JsonArray (map (\<lambda>v. case stringify_json v of None \<Rightarrow> JsonNull | Some j \<Rightarrow> j) vs))"
| "stringify_json (JObj kvs) =
     Some (JsonObject (concat (map (\<lambda>(k, v). case stringify_json v of None \<Rightarrow> [] | Some j \<Rightarrow> [(k, j)]) kvs)))"


text \<open>Sequencing of steps that may throw: the first error ends the computation.\<close>

definition and_then :: "'e + 'a \<Rightarrow> ('a \<Rightarrow> 'e + 'b) \<Rightarrow> 'e + 'b" where
  "and_then m f = (case m of Inl e \<Rightarrow> Inl e | Inr a \<Rightarrow> f a)"

section \<open>The relay (server.js)\<close>

datatype ready_state = CONNECTING | OPEN | CLOSING | CLOSED

type_synonym conn = nat

text \<open>
  \<open>wss.clients\<close> is the set the WebSocket library keeps, in insertion order, each client
  with its \<open>readyState\<close>. A send is recorded as the pair of the client and the text.
\<close>

record relay =
  wss_clients :: "(conn \<times> ready_state) list"

fun broadcast :: "json \<Rightarrow> (conn \<times> ready_state) list \<Rightarrow> (conn \<times> json) list" where
  "broadcast data [] = []"
| "broadcast data ((client, readyState) # rest) =
     (if readyState = OPEN then (client, data) # broadcast data rest
      else broadcast data rest)"

definition isPulse :: "jsval \<Rightarrow> jsval \<Rightarrow> jsval \<Rightarrow> jsval \<Rightarrow> bool" where
  "isPulse type xNorm yNorm color \<longleftrightarrow>
     type = JStr ''pulse'' \<and> typeof xNorm = ''number'' \<and> typeof yNorm = ''number''
     \<and> typeof color = ''string''"

text \<open>The body of the \<open>try\<close> block of the relay's message handler.\<close>

definition relay_try :: "relay \<Rightarrow> frame \<Rightarrow> js_error + (conn \<times> json) list" where
  "relay_try s data =
     and_then (JSON_parse data) (\<lambda>parsed.
     let obj = (if truthy parsed then parsed else JObj []) in
     and_then (get_field obj ''type'') (\<lambda>type.
     and_then (get_field obj ''xNorm'') (\<lambda>xNorm.
     and_then (get_field obj ''yNorm'') (\<lambda>yNorm.
     and_then (get_field obj ''color'') (\<lambda>color.
     if \<not> isPulse type xNorm yNorm color then Inr []
     else
       (case stringify_json
               (JObj [(''type'', type), (''xNorm'', xNorm), (''yNorm'', yNorm), (''color'', color)]) of
          None \<Rightarrow> Inl TypeError
        | Some data' \<Rightarrow> Inr (broadcast data' (wss_clients s))))))))"

text \<open>
  The handler \<open>socket.on('message', ...)\<close>: the \<open>catch\<close> swallows every error. It returns
  the relay's state and the sends it made.
\<close>

definition relay_on_message :: "relay \<Rightarrow> frame \<Rightarrow> relay \<times> (conn \<times> json) list" where
  "relay_on_message s data =
     (case relay_try s data of Inl err \<Rightarrow> (s, []) | Inr out \<Rightarrow> (s, out))"

subsection \<open>Listening\<close>

text \<open>
  \<open>process.env.PORT\<close> is a string or absent; \<open>||\<close> takes the default for an absent or
  empty one.
\<close>

datatype port = PortString string | PortNumber nat

definition HOST :: string where
  "HOST = ''0.0.0.0''"

definition HTTP_PORT :: "string option \<Rightarrow> port" where
  "HTTP_PORT env_PORT =
     (case env_PORT of
        None \<Rightarrow> PortNumber 3000
      | Some p \<Rightarrow> if p \<noteq> [] then PortString p else PortNumber 3000)"

text \<open>
  What \<open>listen\<close> makes of its first argument. A string that \<open>Number\<close> reads as a number
  that is not negative names the port of that number; a string that \<open>Number\<close> reads as
  \<open>NaN\<close> is the path of a local socket, and then no network interface is bound. This
  model follows two kinds of strings: those of decimal digits, which are numbers, and
  those that begin with a letter other than \<open>I\<close>, which are \<open>NaN\<close> (\<open>Infinity\<close> is a
  number). What \<open>listen\<close> makes of any other string is not followed. A port above 65535
  is refused with a \<open>RangeError\<close>.
\<close>

definition decimal_digit :: "char \<Rightarrow> nat option" where
  "decimal_digit c =
     (let n = (of_char c :: nat) in if 48 \<le> n \<and> n \<le> 57 then Some (n - 48) else None)"

fun decimal_value :: "nat \<Rightarrow> string \<Rightarrow> nat option" where
  "decimal_value acc [] = Some acc"
| "decimal_value acc (c # cs) =
     (case decimal_digit c of None \<Rightarrow> None | Some d \<Rightarrow> decimal_value (10 * acc + d) cs)"

definition begins_with_letter :: "string \<Rightarrow> bool" where
  "begins_with_letter str =
     (case str of
        [] \<Rightarrow> False
      | c # cs \<Rightarrow>
          (let n = (of_char c :: nat)
           in (65 \<le> n \<and> n \<le> 72) \<or> (74 \<le> n \<and> n \<le> 90) \<or> (97 \<le> n \<and> n \<le> 122)))"

datatype listen_target = TcpPort nat | LocalPath string | OtherSpelling string

definition listen_target_of :: "port \<Rightarrow> js_error + listen_target" where
  "listen_target_of p =
     (case p of
        PortNumber n \<Rightarrow> if n \<le> 65535 then Inr (TcpPort n) else Inl RangeError
      | PortString str \<Rightarrow>
          (case decimal_value 0 str of
             None \<Rightarrow>
               if begins_with_letter str then Inr (LocalPath str) else Inr (OtherSpelling str)
           | Some n \<Rightarrow> if n \<le> 65535 then Inr (TcpPort n) else Inl RangeError))"

text \<open>
  \<open>server.listen(HTTP_PORT, HOST, ...)\<close> is called once and no \<open>error\<close> listener is
  registered, so a port or a path in use ends the process with the unhandled error
  \<open>EADDRINUSE\<close>. Port 0 asks the system for any free port. \<open>NotFollowed\<close> stands for
  the outcome on a string this model does not follow.
\<close>

datatype listen_result =
    Listening string nat
  | ListeningOnFreePort string
  | ListeningOnPath string
  | Unhandled_EADDRINUSE
  | Threw js_error
  | NotFollowed

definition server_listen ::
  "string option \<Rightarrow> (nat \<Rightarrow> bool) \<Rightarrow> (string \<Rightarrow> bool) \<Rightarrow> listen_result" where
  "server_listen env_PORT port_in_use path_in_use =
     (case listen_target_of (HTTP_PORT env_PORT) of
        Inl err \<Rightarrow> Threw err
      | Inr (LocalPath path) \<Rightarrow>
          if path_in_use path then Unhandled_EADDRINUSE else ListeningOnPath path
      | Inr (TcpPort n) \<Rightarrow>
          if n = 0 then ListeningOnFreePort HOST
          else if port_in_use n then Unhandled_EADDRINUSE
          else Listening HOST n
      | Inr (OtherSpelling str) \<Rightarrow> NotFollowed)"

section \<open>The client (script.js)\<close>

subsection \<open>State\<close>

record color_rgb =
  rgb_r :: int
  rgb_g :: int
  rgb_b :: int

record pulse =
  normX :: jsnum
  normY :: jsnum
  rgb :: color_rgb
  radius :: real
  age :: real

text \<open>
  \<open>colorPicker.x\<close> and \<open>colorPicker.y\<close> are \<open>null\<close> until \<open>positionColorPicker\<close> first
  runs; \<open>null\<close> counts as 0 in arithmetic.
\<close>

record colorPicker =
  input_value :: string
  cp_radius :: real
  cp_margin :: real
  cp_x :: "real option"
  cp_y :: "real option"
  isDragging :: bool
  pointerId :: "int option"
  isPointerCapture :: bool
  dragStartX :: "real option"
  dragStartY :: "real option"
  pointerStartX :: real
  pointerStartY :: real

datatype callback = ConnectWebSocket

record timer =
  delay_ms :: nat
  handler :: callback

record dom_rect =
  rect_left :: real
  rect_top :: real
  rect_width :: real
  rect_height :: real

text \<open>
  The client's variables, and what it reads from the page: the canvas's bounding rectangle
  and \<open>window.devicePixelRatio\<close>. \<open>sent\<close> lists the texts passed to \<open>socket.send\<close>,
  \<open>timers\<close> the pending \<open>setTimeout\<close> calls, oldest first, \<open>opened\<close> counts
  the \<open>new WebSocket\<close> calls, and \<open>frame_requested\<close> tells whether a call of
  \<open>requestAnimationFrame(animate)\<close> is pending. Positions, sizes and times of
  the page are finite and are reals.
\<close>

record client =
  pulses :: "pulse list"
  picker :: colorPicker
  socket :: "ready_state option"
  sent :: "json list"
  timers :: "timer list"
  cssWidth :: real
  cssHeight :: real
  deviceRatio :: real
  canvas_width :: nat
  canvas_height :: nat
  bounding_rect :: dom_rect
  devicePixelRatio :: real
  lastTime :: real
  frame_requested :: bool
  opened :: nat

text \<open>The constants \<open>0.22\<close>, \<open>420\<close> and \<open>1.4\<close>, as the doubles the literals denote.\<close>

definition MAX_PULSE_ALPHA :: real where
  "MAX_PULSE_ALPHA = nearest (22 / 100)"

definition GROWTH_RATE :: real where
  "GROWTH_RATE = 420"

definition PULSE_LIFETIME :: real where
  "PULSE_LIFETIME = nearest (14 / 10)"

definition null_as_zero :: "real option \<Rightarrow> real" where
  "null_as_zero v = (case v of None \<Rightarrow> 0 | Some x \<Rightarrow> x)"

subsection \<open>Canvas size\<close>

definition Math_round :: "real \<Rightarrow> int" where
  "Math_round x = \<lfloor>x + 1 / 2\<rfloor>"

text \<open>\<open>positionColorPicker\<close>; the styles of the hidden input are not part of the state.\<close>

definition positionColorPicker :: "client \<Rightarrow> client" where
  "positionColorPicker s =
     (let cp = picker s;
          cp1 = (if cp_x cp = None \<or> cp_y cp = None
                 then cp\<lparr>cp_x := Some (cp_margin cp + cp_radius cp),
                         cp_y := Some (cssHeight s - (cp_margin cp + cp_radius cp))\<rparr>
                 else cp);
          cp2 = cp1\<lparr>cp_x := Some (min (max (cp_radius cp1) (null_as_zero (cp_x cp1)))
                                     (max (cp_radius cp1) (cssWidth s - cp_radius cp1)))\<rparr>;
          cp3 = cp2\<lparr>cp_y := Some (min (max (cp_radius cp2) (null_as_zero (cp_y cp2)))
                                     (max (cp_radius cp2) (cssHeight s - cp_radius cp2)))\<rparr>
      in s\<lparr>picker := cp3\<rparr>)"

definition resizeCanvas :: "client \<Rightarrow> client" where
  "resizeCanvas s =
     (let rect = bounding_rect s;
          w = rect_width rect;
          h = rect_height rect;
          ratio = (if devicePixelRatio s \<noteq> 0 then devicePixelRatio s else 1)
      in positionColorPicker
           (s\<lparr>cssWidth := w, cssHeight := h, deviceRatio := ratio,
              canvas_width := nat (Math_round (nearest (w * ratio))),
              canvas_height := nat (Math_round (nearest (h * ratio)))\<rparr>))"


subsection \<open>Colours\<close>

text \<open>
  \<open>parseInt(string, 16)\<close>: leading white space is skipped, then a sign, then \<open>0x\<close> or
  \<open>0X\<close>; the value is that of the longest run of hexadecimal digits that follows, and
  \<open>NaN\<close> when there is none. A character is a code unit below 256.
\<close>

definition is_white_space :: "char \<Rightarrow> bool" where
  "is_white_space c \<longleftrightarrow> (of_char c :: int) \<in> {9, 10, 11, 12, 13, 32, 160}"

definition hex_digit :: "char \<Rightarrow> int option" where
  "hex_digit c =
     (let n = (of_char c :: int) in
      if 48 \<le> n \<and> n \<le> 57 then Some (n - 48)
      else if 97 \<le> n \<and> n \<le> 102 then Some (n - 87)
      else if 65 \<le> n \<and> n \<le> 70 then Some (n - 55)
      else None)"

fun hex_prefix_value :: "int \<Rightarrow> string \<Rightarrow> int" where
  "hex_prefix_value acc [] = acc"
| "hex_prefix_value acc (c # cs) =
     (case hex_digit c of None \<Rightarrow> acc | Some d \<Rightarrow> hex_prefix_value (16 * acc + d) cs)"

text \<open>
  The double nearest to a natural number, ties to even: exact below \<open>2^53\<close>, 53
  significant bits above, \<open>Infinity\<close> from \<open>2^1024\<close> on.
\<close>

definition nearest_double :: "int \<Rightarrow> jsnum" where
  "nearest_double n =
     (if n < 2 ^ 53 then Finite (of_int n)
      else
        let k = nat (bitlen n - 53);
            q = n div 2 ^ k;
            rest = n mod 2 ^ k;
            half = 2 ^ (k - 1);
            m = (if half < rest \<or> (rest = half \<and> odd q) then q + 1 else q)
        in if 2 ^ 1024 \<le> m * 2 ^ k then PosInfinity else Finite (of_int (m * 2 ^ k)))"

fun js_negate :: "jsnum \<Rightarrow> jsnum" where
  "js_negate NaN = NaN"
| "js_negate NegInfinity = PosInfinity"
| "js_negate PosInfinity = NegInfinity"
| "js_negate (Finite x) = Finite (- x)"

fun strip_sign :: "string \<Rightarrow> bool \<times> string" where
  "strip_sign (c # cs) =
     (if c = CHR ''-'' then (True, cs) else if c = CHR ''+'' then (False, cs) else (False, c # cs))"
| "strip_sign [] = (False, [])"

fun strip_0x :: "string \<Rightarrow> string" where
  "strip_0x (c # d # cs) =
     (if c = CHR ''0'' \<and> (d = CHR ''x'' \<or> d = CHR ''X'') then cs else c # d # cs)"
| "strip_0x cs = cs"

definition parseInt16 :: "string \<Rightarrow> jsnum" where
  "parseInt16 str =
     (let (negative, unsigned) = strip_sign (dropWhile is_white_space str);
          digits = strip_0x unsigned
      in case digits of
           [] \<Rightarrow> NaN
         | c # cs \<Rightarrow>
             (case hex_digit c of
                None \<Rightarrow> NaN
              | Some d \<Rightarrow>
                  let v = nearest_double (hex_prefix_value 0 digits)
                  in if negative then js_negate v else v))"

text \<open>\<open>ToInt32\<close>, which \<open>>>\<close> and \<open>&\<close> apply to their operands.\<close>

fun ToInt32 :: "jsnum \<Rightarrow> 32 word" where
  "ToInt32 (Finite x) = word_of_int (if 0 \<le> x then \<lfloor>x\<rfloor> else \<lceil>x\<rceil>)"
| "ToInt32 _ = 0"

text \<open>\<open>hex.replace('#', '')\<close> removes the first \<open>#\<close>.\<close>

fun remove_first_hash :: "string \<Rightarrow> string" where
  "remove_first_hash [] = []"
| "remove_first_hash (c # cs) = (if c = CHR ''#'' then cs else c # remove_first_hash cs)"

text \<open>
  \<open>hexToRgb\<close>: a value that is not a string has no \<open>replace\<close> method to call (a
  \<open>TypeError\<close>).
\<close>

fun hexToRgb :: "jsval \<Rightarrow> js_error + color_rgb" where
  "hexToRgb (JStr hex) =
     (let cleaned = remove_first_hash hex;
          n = ToInt32 (parseInt16 cleaned)
      in Inr \<lparr>rgb_r = sint (signed_drop_bit 16 n AND 255),
               rgb_g = sint (signed_drop_bit 8 n AND 255),
               rgb_b = sint (n AND 255)\<rparr>)"
| "hexToRgb _ = Inl TypeError"

subsection \<open>Spawning and sending\<close>

definition spawnPulse :: "jsnum \<Rightarrow> jsnum \<Rightarrow> jsval \<Rightarrow> client \<Rightarrow> js_error + client" where
  "spawnPulse nx ny colorHex s =
     and_then (hexToRgb colorHex) (\<lambda>c.
       Inr (s\<lparr>pulses := pulses s @ [\<lparr>normX = nx, normY = ny, rgb = c, radius = 0, age = 0\<rparr>]\<rparr>))"

definition pulse_message :: "jsnum \<Rightarrow> jsnum \<Rightarrow> jsval \<Rightarrow> jsval" where
  "pulse_message nx ny colorHex =
     JObj [(''type'', JStr ''pulse''), (''xNorm'', JNum nx), (''yNorm'', JNum ny),
           (''color'', colorHex)]"

definition sendPulse :: "jsnum \<Rightarrow> jsnum \<Rightarrow> jsval \<Rightarrow> client \<Rightarrow> js_error + client" where
  "sendPulse nx ny colorHex s =
     and_then (spawnPulse nx ny colorHex s) (\<lambda>s1.
       if socket s1 = Some OPEN then
         (case stringify_json (pulse_message nx ny colorHex) of
            None \<Rightarrow> Inl TypeError
          | Some data \<Rightarrow> Inr (s1\<lparr>sent := sent s1 @ [data]\<rparr>))
       else Inr s1)"

subsection \<open>Pointer and touch input\<close>

record pointer_event =
  clientX :: real
  clientY :: real
  event_pointerId :: int

record touch =
  touch_clientX :: real
  touch_clientY :: real
  touch_identifier :: int

text \<open>
  A touch event lists all touches now on the surface (\<open>touches\<close>) and those the event is
  about (\<open>changedTouches\<close>); \<open>handleTouchStart\<close> reads the first of \<open>touches\<close>.
\<close>

record touch_event =
  touches :: "touch list"
  changedTouches :: "touch list"

record position =
  pos_x :: real
  pos_y :: real
  pos_normX :: jsnum
  pos_normY :: jsnum

definition isInsideColorPicker :: "client \<Rightarrow> real \<Rightarrow> real \<Rightarrow> bool" where
  "isInsideColorPicker s localX localY \<longleftrightarrow>
     (let dx = localX - null_as_zero (cp_x (picker s));
          dy = localY - null_as_zero (cp_y (picker s))
      in sqrt (dx * dx + dy * dy) \<le> cp_radius (picker s))"

definition getPointerPosition :: "client \<Rightarrow> pointer_event \<Rightarrow> position" where
  "getPointerPosition s event =
     (let rect = bounding_rect s;
          x = nearest (clientX event - rect_left rect);
          y = nearest (clientY event - rect_top rect)
      in \<lparr>pos_x = x, pos_y = y,
          pos_normX = js_div (js_mul (Finite x) (Finite (deviceRatio s)))
                        (Finite (real (canvas_width s))),
          pos_normY = js_div (js_mul (Finite y) (Finite (deviceRatio s)))
                        (Finite (real (canvas_height s)))\<rparr>)"

definition getTouchPosition :: "client \<Rightarrow> touch \<Rightarrow> position" where
  "getTouchPosition s t =
     (let rect = bounding_rect s;
          x = nearest (touch_clientX t - rect_left rect);
          y = nearest (touch_clientY t - rect_top rect)
      in \<lparr>pos_x = x, pos_y = y,
          pos_normX = js_div (js_mul (Finite x) (Finite (deviceRatio s)))
                        (Finite (real (canvas_width s))),
          pos_normY = js_div (js_mul (Finite y) (Finite (deviceRatio s)))
                        (Finite (real (canvas_height s)))\<rparr>)"

text \<open>
  \<open>handlePointerDown\<close>. A failing \<open>setPointerCapture\<close> is caught and ignored, and
  \<open>preventDefault\<close> changes nothing of the state.
\<close>

definition handlePointerDown :: "pointer_event \<Rightarrow> client \<Rightarrow> js_error + client" where
  "handlePointerDown event s =
     (let p = getPointerPosition s event in
      if isInsideColorPicker s (pos_x p) (pos_y p) then
        Inr (s\<lparr>picker := (picker s)
               \<lparr>isDragging := True,
                pointerId := Some (event_pointerId event),
                isPointerCapture := True,
                dragStartX := cp_x (picker s),
                dragStartY := cp_y (picker s),
                pointerStartX := pos_x p,
                pointerStartY := pos_y p\<rparr>\<rparr>)
      else
        let colorHex = input_value (picker s)
        in sendPulse (pos_normX p) (pos_normY p) (JStr colorHex) s)"

definition handleTouchStart :: "touch_event \<Rightarrow> client \<Rightarrow> js_error + client" where
  "handleTouchStart event s =
     (case touches event of
        [] \<Rightarrow> Inr s
      | t # others \<Rightarrow>
          let p = getTouchPosition s t in
          if isInsideColorPicker s (pos_x p) (pos_y p) then
            Inr (s\<lparr>picker := (picker s)
                   \<lparr>isDragging := True,
                    pointerId := Some (touch_identifier t),
                    isPointerCapture := False,
                    dragStartX := cp_x (picker s),
                    dragStartY := cp_y (picker s),
                    pointerStartX := pos_x p,
                    pointerStartY := pos_y p\<rparr>\<rparr>)
          else
            let colorHex = input_value (picker s)
            in sendPulse (pos_normX p) (pos_normY p) (JStr colorHex) s)"


subsection \<open>Sync layer\<close>

text \<open>
  \<open>connectWebSocket\<close> replaces \<open>socket\<close> by a new connection, which starts in state
  \<open>CONNECTING\<close>, and registers the four listeners below on it.
\<close>

definition connectWebSocket :: "client \<Rightarrow> client" where
  "connectWebSocket s = s\<lparr>socket := Some CONNECTING, opened := opened s + 1\<rparr>"

text \<open>\<open>Math.min\<close> and \<open>Math.max\<close> read a value whose \<open>typeof\<close> is \<open>number\<close> as it is;
  the listener passes them no other value.\<close>

fun number_value :: "jsval \<Rightarrow> jsnum" where
  "number_value (JNum n) = n"
| "number_value _ = NaN"

definition clamp01 :: "jsnum \<Rightarrow> jsnum" where
  "clamp01 v = js_max (Finite 0) (js_min (Finite 1) v)"

text \<open>
  The \<open>try\<close> block of the client's message listener: first what it does with the parsed
  value, then the block as a whole.
\<close>

definition client_handle_parsed :: "client \<Rightarrow> jsval \<Rightarrow> js_error + client" where
  "client_handle_parsed s parsed =
     (let obj = (if truthy parsed then parsed else JObj []) in
     and_then (get_field obj ''type'') (\<lambda>type.
     and_then (get_field obj ''xNorm'') (\<lambda>xNorm.
     and_then (get_field obj ''yNorm'') (\<lambda>yNorm.
     and_then (get_field obj ''color'') (\<lambda>color.
     if type = JStr ''pulse'' \<and> typeof xNorm = ''number'' \<and> typeof yNorm = ''number''
        \<and> typeof color = ''string''
     then
       let clampedX = clamp01 (number_value xNorm);
           clampedY = clamp01 (number_value yNorm);
           pxX = js_mul clampedX (Finite (real (canvas_width s)));
           pxY = js_mul clampedY (Finite (real (canvas_height s)));
           nx = js_div pxX (Finite (real (canvas_width s)));
           ny = js_div pxY (Finite (real (canvas_height s)))
       in spawnPulse nx ny color s
     else Inr s)))))"

definition client_try_message :: "client \<Rightarrow> frame \<Rightarrow> js_error + client" where
  "client_try_message s data = and_then (JSON_parse data) (client_handle_parsed s)"

text \<open>The four listeners. The \<open>catch\<close> of the message listener logs and goes on.\<close>

definition client_on_open :: "client \<Rightarrow> client" where
  "client_on_open s = s"

definition client_on_message :: "client \<Rightarrow> frame \<Rightarrow> client" where
  "client_on_message s data =
     (case client_try_message s data of Inl err \<Rightarrow> s | Inr s' \<Rightarrow> s')"

definition client_on_close :: "client \<Rightarrow> client" where
  "client_on_close s =
     s\<lparr>timers := timers s @ [\<lparr>delay_ms = 500, handler = ConnectWebSocket\<rparr>]\<rparr>"

definition client_on_error :: "client \<Rightarrow> client" where
  "client_on_error s = s"

subsection \<open>Animation loop\<close>

text \<open>\<open>Math.min(1, pulse.age / PULSE_LIFETIME)\<close> and the opacity, at the age \<open>a\<close>.\<close>

definition lifeT_at :: "real \<Rightarrow> real" where
  "lifeT_at a = min 1 (nearest (a / PULSE_LIFETIME))"

definition alpha_at :: "real \<Rightarrow> real" where
  "alpha_at a = MAX_PULSE_ALPHA * sin (pi * lifeT_at a)"

text \<open>
  What the loop draws for a pulse: the centre and radius of the gradient and of the arc,
  the colour and \<open>globalAlpha\<close>. The calls on the canvas are recorded, not interpreted.
\<close>

record draw =
  draw_x :: jsnum
  draw_y :: jsnum
  draw_radius :: real
  draw_alpha :: real
  draw_rgb :: color_rgb

text \<open>
  \<open>pulse.age += deltaSec\<close> and \<open>pulse.radius += GROWTH_RATE * deltaSec\<close>, in double
  arithmetic.
\<close>

definition advance :: "real \<Rightarrow> pulse \<Rightarrow> pulse" where
  "advance deltaSec p =
     p\<lparr>age := nearest (age p + deltaSec),
       radius := nearest (radius p + nearest (GROWTH_RATE * deltaSec))\<rparr>"

definition draw_pulse :: "real \<Rightarrow> real \<Rightarrow> pulse \<Rightarrow> draw" where
  "draw_pulse w h p =
     \<lparr>draw_x = js_mul (normX p) (Finite w), draw_y = js_mul (normY p) (Finite h),
      draw_radius = radius p, draw_alpha = alpha_at (age p), draw_rgb = rgb p\<rparr>"

text \<open>
  \<open>ctx.createRadialGradient(x, y, 0, x, y, radius)\<close> throws a \<open>TypeError\<close> when an
  argument is not finite and an \<open>IndexSizeError\<close> when the radius is negative; the result
  here is the exception, if any. After it \<open>ctx.arc\<close> has the same arguments and throws
  nothing more.
\<close>

definition createRadialGradient :: "jsnum \<Rightarrow> jsnum \<Rightarrow> real \<Rightarrow> js_error option" where
  "createRadialGradient x y r =
     (case x of
        Finite vx \<Rightarrow>
          (case y of
             Finite vy \<Rightarrow> if r < 0 then Some IndexSizeError else None
           | _ \<Rightarrow> Some TypeError)
      | _ \<Rightarrow> Some TypeError)"

text \<open>
  The loop \<open>for (let i = pulses.length - 1; i >= 0; i -= 1)\<close>: the argument \<open>Suc i\<close>
  stands for the index \<open>i\<close>, \<open>0\<close> for the exit. \<open>splice(i, 1)\<close> removes the element at
  \<open>i\<close>; the pulse is an object, so its update is seen in the array. An exception ends the
  loop where it is: the pulse at \<open>i\<close> has been advanced, those below have not. The result
  is the array, the pulses drawn, and the exception, if any.
\<close>

fun animate_loop ::
  "real \<Rightarrow> real \<Rightarrow> real \<Rightarrow> nat \<Rightarrow> pulse list \<Rightarrow> draw list
     \<Rightarrow> pulse list \<times> draw list \<times> js_error option" where
  "animate_loop deltaSec w h 0 ps ds = (ps, ds, None)"
| "animate_loop deltaSec w h (Suc i) ps ds =
     (let p = advance deltaSec (ps ! i);
          lifeT = lifeT_at (age p)
      in if 1 \<le> lifeT then animate_loop deltaSec w h i (take i ps @ drop (Suc i) ps) ds
         else
           (case createRadialGradient (js_mul (normX p) (Finite w)) (js_mul (normY p) (Finite h))
                   (radius p) of
              Some err \<Rightarrow> (ps[i := p], ds, Some err)
            | None \<Rightarrow> animate_loop deltaSec w h i (ps[i := p]) (ds @ [draw_pulse w h p])))"

text \<open>The step \<open>Math.min((now - lastTime) / 1000, 0.05)\<close>, in double arithmetic.\<close>

definition MAX_STEP :: real where
  "MAX_STEP = nearest (5 / 100)"

definition deltaSec_of :: "real \<Rightarrow> real \<Rightarrow> real" where
  "deltaSec_of now previous = min (nearest (nearest (now - previous) / 1000)) MAX_STEP"

text \<open>
  \<open>animate\<close> returns the new state, the pulses it drew, in drawing order, and the
  exception that ended it, if any. The trailing fade and the handle of the colour picker
  are drawn too and are left out here. Only a frame that ends normally calls
  \<open>requestAnimationFrame(animate)\<close> again.
\<close>

definition animate :: "real \<Rightarrow> client \<Rightarrow> client \<times> draw list \<times> js_error option" where
  "animate now s =
     (let deltaSec = deltaSec_of now (lastTime s);
          (ps, ds, err) = animate_loop deltaSec (cssWidth s) (cssHeight s)
                            (length (pulses s)) (pulses s) []
      in (s\<lparr>lastTime := now, pulses := ps, frame_requested := (err = None)\<rparr>, ds, err))"

subsection \<open>The client as an event-driven machine\<close>

text \<open>
  The browser sets \<open>readyState\<close> before it calls the \<open>open\<close> and \<open>close\<close> listeners. A
  timer that fires is the oldest pending one (all have the same delay). An exception that
  leaves a handler ends that handler. A frame runs only when one has been requested.
\<close>

datatype client_event =
    SocketOpen
  | SocketMessage frame
  | SocketClose
  | SocketError
  | TimerFires
  | AnimationFrame real
  | PointerDown pointer_event
  | TouchStart touch_event
  | Resize

fun run_callback :: "callback \<Rightarrow> client \<Rightarrow> client" where
  "run_callback ConnectWebSocket s = connectWebSocket s"

definition or_unchanged :: "client \<Rightarrow> js_error + client \<Rightarrow> client" where
  "or_unchanged s res = (case res of Inl err \<Rightarrow> s | Inr s' \<Rightarrow> s')"

fun step :: "client_event \<Rightarrow> client \<Rightarrow> client" where
  "step SocketOpen s = client_on_open (s\<lparr>socket := Some OPEN\<rparr>)"
| "step (SocketMessage data) s = client_on_message s data"
| "step SocketClose s = client_on_close (s\<lparr>socket := Some CLOSED\<rparr>)"
| "step SocketError s = client_on_error s"
| "step TimerFires s =
     (case timers s of [] \<Rightarrow> s | t # rest \<Rightarrow> run_callback (handler t) (s\<lparr>timers := rest\<rparr>))"
| "step (AnimationFrame now) s = (if frame_requested s then fst (animate now s) else s)"
| "step (PointerDown event) s = or_unchanged s (handlePointerDown event s)"
| "step (TouchStart event) s = or_unchanged s (handleTouchStart event s)"
| "step Resize s = resizeCanvas s"

fun run :: "client_event list \<Rightarrow> client \<Rightarrow> client" where
  "run [] s = s"
| "run (e # es) s = run es (step e s)"

text \<open>
  The state after \<open>init\<close>, given the colour \<open>randomColor\<close> chose, the page's rectangle and
  pixel ratio, and the time the script was loaded. A canvas element is 300 by 150 pixels
  until \<open>resizeCanvas\<close> sets its size.
\<close>

definition init :: "string \<Rightarrow> dom_rect \<Rightarrow> real \<Rightarrow> real \<Rightarrow> client" where
  "init color rect ratio loaded =
     connectWebSocket (resizeCanvas
       \<lparr>pulses = [],
        picker = \<lparr>input_value = color, cp_radius = 20, cp_margin = 24, cp_x = None, cp_y = None,
                  isDragging = False, pointerId = None, isPointerCapture = False,
                  dragStartX = Some 0, dragStartY = Some 0, pointerStartX = 0, pointerStartY = 0\<rparr>,
        socket = None, sent = [], timers = [],
        cssWidth = 0, cssHeight = 0, deviceRatio = (if ratio \<noteq> 0 then ratio else 1),
        canvas_width = 300, canvas_height = 150,
        bounding_rect = rect, devicePixelRatio = ratio, lastTime = loaded,
        frame_requested = True, opened = 0\<rparr>)"

section \<open>The pulse-event schema, as the specification words it\<close>

text \<open>
  A frame satisfies the schema when it is a JSON object whose \<open>type\<close> is the string
  \<open>pulse\<close>, whose \<open>xNorm\<close> and \<open>yNorm\<close> are numbers and whose \<open>color\<close> is a string.
  \<open>pulse_fields\<close> gives the three values of such a frame.
\<close>

definition json_member :: "(string \<times> json) list \<Rightarrow> string \<Rightarrow> json option" where
  "json_member kvs k = map_of (rev kvs) k"

fun pulse_fields :: "frame \<Rightarrow> (real \<times> real \<times> string) option" where
  "pulse_fields (JSON (JsonObject kvs)) =
     (case json_member kvs ''type'' of
        Some (JsonString t) \<Rightarrow>
          (case json_member kvs ''xNorm'' of
             Some (JsonNumber x) \<Rightarrow>
               (case json_member kvs ''yNorm'' of
                  Some (JsonNumber y) \<Rightarrow>
                    (case json_member kvs ''color'' of
                       Some (JsonString c) \<Rightarrow> if t = ''pulse'' then Some (x, y, c) else None
                     | _ \<Rightarrow> None)
                | _ \<Rightarrow> None)
           | _ \<Rightarrow> None)
      | _ \<Rightarrow> None)"
| "pulse_fields _ = None"

definition satisfies_pulse_schema :: "frame \<Rightarrow> bool" where
  "satisfies_pulse_schema data \<longleftrightarrow> pulse_fields data \<noteq> None"

text \<open>The JSON object with exactly the four fields, in the order the relay writes them.\<close>

definition pulse_json :: "json \<Rightarrow> json \<Rightarrow> string \<Rightarrow> json" where
  "pulse_json x y c =
     JsonObject [(''type'', JsonString ''pulse''), (''xNorm'', x), (''yNorm'', y),
                 (''color'', JsonString c)]"

section \<open>Notions used to state the properties\<close>

text \<open>The value a member of a parsed object has when it is read.\<close>

definition member_value :: "json option \<Rightarrow> jsval" where
  "member_value m = (case m of None \<Rightarrow> JUndefined | Some j \<Rightarrow> parse_json j)"

text \<open>How \<open>JSON.stringify\<close> writes a number.\<close>

definition wire_number :: "jsnum \<Rightarrow> json" where
  "wire_number n = (case n of Finite v \<Rightarrow> JsonNumber v | _ \<Rightarrow> JsonNull)"

text \<open>The connections of the relay that are open, in the order of \<open>wss.clients\<close>.\<close>

definition open_clients :: "relay \<Rightarrow> conn list" where
  "open_clients s = map fst (filter (\<lambda>(client, readyState). readyState = OPEN) (wss_clients s))"

text \<open>A normalized coordinate within \<open>[0, 1]\<close>, and a pixel coordinate within \<open>[0, limit]\<close>.\<close>

fun in_range :: "real \<Rightarrow> jsnum \<Rightarrow> bool" where
  "in_range limit (Finite v) = (0 \<le> v \<and> v \<le> limit)"
| "in_range limit _ = False"

definition in_unit_square :: "pulse \<Rightarrow> bool" where
  "in_unit_square p \<longleftrightarrow> in_range 1 (normX p) \<and> in_range 1 (normY p)"

text \<open>The pulse a tap or a message creates.\<close>

definition new_pulse :: "jsnum \<Rightarrow> jsnum \<Rightarrow> color_rgb \<Rightarrow> pulse" where
  "new_pulse nx ny c = \<lparr>normX = nx, normY = ny, rgb = c, radius = 0, age = 0\<rparr>"

text \<open>The colour \<open>hexToRgb\<close> returns for a string.\<close>

definition channels :: "string \<Rightarrow> color_rgb" where
  "channels hex =
     (let n = ToInt32 (parseInt16 (remove_first_hash hex))
      in \<lparr>rgb_r = sint (signed_drop_bit 16 n AND 255),
          rgb_g = sint (signed_drop_bit 8 n AND 255),
          rgb_b = sint (n AND 255)\<rparr>)"

text \<open>
  The coordinate the message listener passes on: the clamped value, times the size of the
  canvas, divided by it again.
\<close>

definition renormalized :: "nat \<Rightarrow> jsnum \<Rightarrow> jsnum" where
  "renormalized extent v = js_div (js_mul (clamp01 v) (Finite (real extent))) (Finite (real extent))"

text \<open>What \<open>createRadialGradient\<close> throws for a pulse on a surface \<open>w\<close> by \<open>h\<close>.\<close>

definition throws_for :: "real \<Rightarrow> real \<Rightarrow> pulse \<Rightarrow> js_error option" where
  "throws_for w h p =
     createRadialGradient (js_mul (normX p) (Finite w)) (js_mul (normY p) (Finite h)) (radius p)"

fun is_finite :: "jsnum \<Rightarrow> bool" where
  "is_finite (Finite v) = True"
| "is_finite _ = False"

text \<open>
  A pulse whose centre on a surface \<open>w\<close> by \<open>h\<close> is finite and whose radius is not
  negative.
\<close>

definition paintable :: "real \<Rightarrow> real \<Rightarrow> pulse \<Rightarrow> bool" where
  "paintable w h p \<longleftrightarrow>
     is_finite (js_mul (normX p) (Finite w)) \<and> is_finite (js_mul (normY p) (Finite h))
     \<and> 0 \<le> radius p"

text \<open>A pulse that stays in the collection: its life has not reached 1.\<close>

definition alive :: "pulse \<Rightarrow> bool" where
  "alive p \<longleftrightarrow> \<not> 1 \<le> lifeT_at (age p)"

text \<open>What a number literal becomes when it is parsed and written again.\<close>

definition rewritten :: "real \<Rightarrow> json" where
  "rewritten x = wire_number (literal_value x)"

text \<open>
  A page for the examples: a canvas of 800 by 600 CSS pixels at the origin, pixel ratio 1,
  the colour \<open>#3399ff\<close>, script loaded at time 0.
\<close>

definition example_rect :: dom_rect where
  "example_rect = \<lparr>rect_left = 0, rect_top = 0, rect_width = 800, rect_height = 600\<rparr>"

definition example_client :: client where
  "example_client = init ''#3399ff'' example_rect 1 0"

definition example_relay :: relay where
  "example_relay = \<lparr>wss_clients = [(0, OPEN), (1, CLOSED), (2, OPEN)]\<rparr>"

definition example_pulse_frame :: frame where
  "example_pulse_frame =
     JSON (JsonObject [(''type'', JsonString ''pulse''), (''xNorm'', JsonNumber (1 / 2)),
                       (''yNorm'', JsonNumber (1 / 2)), (''color'', JsonString ''#ff0000'')])"

text \<open>The example page after the frame \<open>example_pulse_frame\<close> has arrived: one pulse.\<close>

definition one_pulse_client :: client where
  "one_pulse_client = step (SocketMessage example_pulse_frame) example_client"

text \<open>That page after frames at 16, 32 and 48 milliseconds.\<close>

definition after_one_frame :: client where
  "after_one_frame = step (AnimationFrame 16) one_pulse_client"

definition after_two_frames :: client where
  "after_two_frames = step (AnimationFrame 32) after_one_frame"

definition after_three_frames :: client where
  "after_three_frames = step (AnimationFrame 48) after_two_frames"

text \<open>The same page after frames at 1, 2 and 3 seconds instead: each gap is clamped.\<close>

definition after_one_gap :: client where
  "after_one_gap = step (AnimationFrame 1000) one_pulse_client"

definition after_two_gaps :: client where
  "after_two_gaps = step (AnimationFrame 2000) after_one_gap"

definition after_three_gaps :: client where
  "after_three_gaps = step (AnimationFrame 3000) after_two_gaps"

text \<open>
  A page whose canvas is 128.25 CSS pixels wide and high (its backing store gets
  \<open>Math.round(128.25) = 128\<close> pixels), and a page whose canvas has no extent.
\<close>

definition fractional_client :: client where
  "fractional_client =
     init ''#3399ff''
       \<lparr>rect_left = 0, rect_top = 0, rect_width = 513 / 4, rect_height = 513 / 4\<rparr> 1 0"

definition collapsed_client :: client where
  "collapsed_client =
     init ''#3399ff'' \<lparr>rect_left = 0, rect_top = 0, rect_width = 0, rect_height = 0\<rparr> 1 0"

text \<open>A pointer-down at \<open>(128.125, 64)\<close>, on the first of these pages.\<close>

definition edge_tap :: pointer_event where
  "edge_tap = \<lparr>clientX = 1025 / 8, clientY = 64, event_pointerId = 1\<rparr>"









text \<open>The frame \<open>{"type":"pulse","xNorm":2,"yNorm":-1,"color":"#ff0000"}\<close>.\<close>

definition outside_frame :: frame where
  "outside_frame =
     JSON (JsonObject [(''type'', JsonString ''pulse''), (''xNorm'', JsonNumber 2),
                       (''yNorm'', JsonNumber (- 1)), (''color'', JsonString ''#ff0000'')])"

text \<open>
  The frame \<open>{"type":"pulse","xNorm":1e400,"yNorm":0,"color":"#ff0000"}\<close>: its
  \<open>xNorm\<close> is a number too large for a finite double.
\<close>

definition literal_1e400 :: real where
  "literal_1e400 = 10 ^ 400"

definition overflow_frame :: frame where
  "overflow_frame =
     JSON (JsonObject [(''type'', JsonString ''pulse''), (''xNorm'', JsonNumber literal_1e400),
                       (''yNorm'', JsonNumber 0), (''color'', JsonString ''#ff0000'')])"

section \<open>Properties of the rounding\<close>

lemma pow2_powr: "pow2 e = 2 powr (of_int e)"
  by (simp add: pow2_def powr_int)

lemma pow2_pos: "0 < pow2 e"
  by (simp add: pow2_powr)

lemma pow2_add: "pow2 (a + b) = pow2 a * pow2 b"
  by (simp add: pow2_powr powr_add)

lemma pow2_mono: "a \<le> b \<Longrightarrow> pow2 a \<le> pow2 b"
  by (simp add: pow2_powr)

lemma binade_eq:
  assumes "pow2 e \<le> \<bar>x\<bar>" "\<bar>x\<bar> < pow2 (e + 1)" "- 1022 \<le> e"
  shows "binade x = e"
proof -
  from assms(1) pow2_pos [of e] have pos: "0 < \<bar>x\<bar>" by linarith
  have "\<lfloor>log 2 \<bar>x\<bar>\<rfloor> = e"
    using assms(1,2) pos by (simp add: floor_log_eq_powr_iff pow2_powr)
  with assms(3) show ?thesis by (simp add: binade_def)
qed

text \<open>How a rounding is computed once the exponent is known.\<close>

lemma nearest_eval:
  assumes "pow2 e \<le> \<bar>x\<bar>" "\<bar>x\<bar> < pow2 (e + 1)" "- 1022 \<le> e"
  shows "nearest x = sgn x * of_int (round_half_even (\<bar>x\<bar> / pow2 (e - 52))) * pow2 (e - 52)"
  by (simp add: nearest_def Let_def binade_eq [OF assms])

lemma nearest_zero: "nearest 0 = 0"
  by (simp add: nearest_def)

lemma round_half_even_nonneg: "0 \<le> y \<Longrightarrow> 0 \<le> round_half_even y"
  by (simp add: round_half_even_def Let_def)

lemma round_half_even_ge_floor: "\<lfloor>y\<rfloor> \<le> round_half_even y"
  by (simp add: round_half_even_def Let_def)

lemma nearest_nonneg: "0 \<le> x \<Longrightarrow> 0 \<le> nearest x"
  by (simp add: nearest_def Let_def round_half_even_nonneg pow2_pos less_imp_le sgn_if)

lemma round_half_even_error: "\<bar>of_int (round_half_even y) - y\<bar> \<le> 1 / 2"
  unfolding round_half_even_def Let_def by (auto; linarith)

text \<open>A rounding is off by at most half a unit in the last place.\<close>

lemma nearest_error: "\<bar>nearest x - x\<bar> \<le> pow2 (binade x - 52) / 2"
proof -
  let ?u = "pow2 (binade x - 52)"
  let ?n = "of_int (round_half_even (\<bar>x\<bar> / ?u)) :: real"
  have u: "0 < ?u" by (rule pow2_pos)
  have "?n * ?u - \<bar>x\<bar> = (?n - \<bar>x\<bar> / ?u) * ?u"
    using u by (simp add: left_diff_distrib)
  then have "\<bar>?n * ?u - \<bar>x\<bar>\<bar> = \<bar>?n - \<bar>x\<bar> / ?u\<bar> * ?u"
    using u by (simp only: abs_mult) simp
  also have "\<dots> \<le> 1 / 2 * ?u"
    using u round_half_even_error [of "\<bar>x\<bar> / ?u"] by (intro mult_right_mono) simp_all
  finally have e: "\<bar>?n * ?u - \<bar>x\<bar>\<bar> \<le> ?u / 2" by simp
  have "nearest x - x = sgn x * (?n * ?u - \<bar>x\<bar>)"
    by (simp add: nearest_def Let_def right_diff_distrib mult.assoc sgn_if)
  then have "\<bar>nearest x - x\<bar> = \<bar>sgn x\<bar> * \<bar>?n * ?u - \<bar>x\<bar>\<bar>"
    by (simp only: abs_mult)
  also have "\<dots> \<le> \<bar>?n * ?u - \<bar>x\<bar>\<bar>"
    by (simp add: sgn_if)
  finally show ?thesis using e by linarith
qed

lemma to_double_not_NaN: "to_double x \<noteq> NaN"
  by (simp add: to_double_def Let_def)

lemma to_double_zero: "to_double 0 = Finite 0"
  by (simp add: to_double_def nearest_zero)

lemma to_double_overflow:
  assumes "2 ^ 1024 \<le> x"
  shows "to_double x = PosInfinity"
proof -
  let ?e = "\<lfloor>log 2 x\<rfloor>"
  have x: "0 < x" using assms by (rule less_le_trans [rotated]) simp
  have "2 powr (1024::real) \<le> x" using assms by simp
  then have "(1024::real) \<le> log 2 x" using x by (subst le_log_iff) simp_all
  then have e: "1024 \<le> ?e" by linarith
  then have b: "binade x = ?e" using x by (simp add: binade_def)
  have "2 powr (of_int ?e) \<le> 2 powr (log 2 x)"
    by (subst powr_le_cancel_iff) simp_all
  then have le: "pow2 ?e \<le> x" using x by (simp add: pow2_powr)
  let ?u = "pow2 (?e - 52)"
  have u: "0 < ?u" by (rule pow2_pos)
  have split: "pow2 ?e = 2 ^ 52 * ?u"
    using pow2_add [of 52 "?e - 52"] by (simp add: pow2_def)
  from le have "2 ^ 52 \<le> x / ?u"
    using u by (simp add: split pos_le_divide_eq)
  then have "(2::int) ^ 52 \<le> \<lfloor>x / ?u\<rfloor>"
    by (simp add: le_floor_iff)
  with round_half_even_ge_floor [of "x / ?u"] have "(2::int) ^ 52 \<le> round_half_even (x / ?u)"
    by linarith
  then have "(2::real) ^ 52 \<le> of_int (round_half_even (x / ?u))"
    by (metis of_int_le_iff of_int_numeral of_int_power)
  then have "2 ^ 52 * ?u \<le> of_int (round_half_even (x / ?u)) * ?u"
    using u by (intro mult_right_mono) simp_all
  then have "pow2 ?e \<le> nearest x"
    using x by (simp add: nearest_def Let_def b split)
  moreover have "pow2 1024 \<le> pow2 ?e" using e by (rule pow2_mono)
  ultimately have "2 ^ 1024 \<le> nearest x" by (simp add: pow2_def)
  then show ?thesis by (simp add: to_double_def Let_def)
qed

lemma nearest_half: "nearest (1 / 2) = 1 / 2"
  by (subst nearest_eval [where e = "- 1"]) (simp_all add: pow2_def round_half_even_def)

lemma nearest_two: "nearest 2 = 2"
  by (subst nearest_eval [where e = 1]) (simp_all add: pow2_def round_half_even_def)

lemma nearest_minus_one: "nearest (- 1) = - 1"
  by (subst nearest_eval [where e = 0]) (simp_all add: pow2_def round_half_even_def)

lemma literal_values:
  "literal_value 0 = Finite 0" "literal_value (1 / 2) = Finite (1 / 2)"
  "literal_value 2 = Finite 2" "literal_value (- 1) = Finite (- 1)"
  by (simp_all add: literal_value_def to_double_zero)
     (simp_all add: to_double_def nearest_half nearest_two nearest_minus_one)

text \<open>The doubles the constants of the client denote.\<close>

lemma MAX_STEP_value: "MAX_STEP = 3602879701896397 / 72057594037927936"
  unfolding MAX_STEP_def
  by (subst nearest_eval [where e = "- 5"]) (simp_all add: pow2_def round_half_even_def)

lemma PULSE_LIFETIME_value: "PULSE_LIFETIME = 3152519739159347 / 2251799813685248"
  unfolding PULSE_LIFETIME_def
  by (subst nearest_eval [where e = 0]) (simp_all add: pow2_def round_half_even_def)


lemma a_rounded_literal: "literal_value 9007199254740993 = Finite 9007199254740992"
proof -
  have "nearest 9007199254740993 = 9007199254740992"
    by (subst nearest_eval [where e = 53]) (simp_all add: pow2_def round_half_even_def)
  then show ?thesis by (simp add: literal_value_def to_double_def)
qed
text \<open>The exponent brackets the number, from the smallest normal number on.\<close>

lemma binade_upper: "\<bar>x\<bar> < pow2 (binade x + 1)"
proof (cases "x = 0")
  case True
  then show ?thesis by (simp add: pow2_pos)
next
  case False
  then have pos: "0 < \<bar>x\<bar>" by simp
  have "log 2 \<bar>x\<bar> < of_int (\<lfloor>log 2 \<bar>x\<bar>\<rfloor> + 1)" by linarith
  also have "\<dots> \<le> of_int (binade x + 1)" by (simp add: binade_def)
  finally have "log 2 \<bar>x\<bar> < of_int (binade x + 1)" .
  then have "\<bar>x\<bar> < 2 powr of_int (binade x + 1)"
    using pos by (simp add: log_less_iff)
  then show ?thesis by (simp only: pow2_powr)
qed

lemma binade_lower:
  assumes "pow2 (- 1022) \<le> \<bar>x\<bar>"
  shows "pow2 (binade x) \<le> \<bar>x\<bar>"
proof -
  from assms pow2_pos [of "- 1022"] have pos: "0 < \<bar>x\<bar>" by linarith
  from assms have "2 powr of_int (- 1022) \<le> \<bar>x\<bar>" by (simp only: pow2_powr)
  then have "of_int (- 1022) \<le> log 2 \<bar>x\<bar>" using pos by (simp add: le_log_iff)
  then have "- 1022 \<le> \<lfloor>log 2 \<bar>x\<bar>\<rfloor>" by (simp add: le_floor_iff)
  then have b: "binade x = \<lfloor>log 2 \<bar>x\<bar>\<rfloor>" by (simp add: binade_def)
  have l: "of_int \<lfloor>log 2 \<bar>x\<bar>\<rfloor> \<le> log 2 \<bar>x\<bar>" by (rule of_int_floor_le)
  have "(1::real) < 2" by simp
  from le_log_iff [OF this pos] l have "2 powr of_int \<lfloor>log 2 \<bar>x\<bar>\<rfloor> \<le> \<bar>x\<bar>"
    by blast
  then show ?thesis by (simp only: pow2_powr b)
qed

lemma binade_ge: "pow2 e \<le> \<bar>x\<bar> \<Longrightarrow> e \<le> binade x"
proof -
  assume a: "pow2 e \<le> \<bar>x\<bar>"
  have "pow2 e < pow2 (binade x + 1)" using a binade_upper [of x] by linarith
  then have "e < binade x + 1"
    by (simp add: pow2_powr)
  then show ?thesis by simp
qed

lemma binade_le:
  assumes "\<bar>x\<bar> < pow2 (e + 1)" "- 1022 \<le> e" "x \<noteq> 0"
  shows "binade x \<le> e"
proof (cases "pow2 (- 1022) \<le> \<bar>x\<bar>")
  case True
  then have "pow2 (binade x) \<le> \<bar>x\<bar>" by (rule binade_lower)
  with assms(1) have "pow2 (binade x) < pow2 (e + 1)" by linarith
  then have "binade x < e + 1" by (simp add: pow2_powr)
  then show ?thesis by simp
next
  case False
  then have x: "\<bar>x\<bar> < pow2 (- 1022)" by simp
  have "\<lfloor>log 2 \<bar>x\<bar>\<rfloor> \<le> - 1022"
  proof -
    from assms(3) have pos: "0 < \<bar>x\<bar>" by simp
    from x have "\<bar>x\<bar> < 2 powr of_int (- 1022)" by (simp only: pow2_powr)
    then have "log 2 \<bar>x\<bar> < of_int (- 1022)"
      using pos log_less_iff [of 2 "\<bar>x\<bar>" "of_int (- 1022)"] by simp
    then have "\<lfloor>log 2 \<bar>x\<bar>\<rfloor> < - 1022" by (simp only: floor_less_iff)
    then show ?thesis by simp
  qed
  then have "binade x = - 1022" by (simp add: binade_def)
  with assms(2) show ?thesis by simp
qed

text \<open>A rounding stays within the binade of the number it rounds.\<close>

lemma nearest_ge_pow2:
  assumes "0 < x" "pow2 (- 1022) \<le> x"
  shows "pow2 (binade x) \<le> nearest x"
proof -
  let ?u = "pow2 (binade x - 52)"
  have u: "0 < ?u" by (rule pow2_pos)
  from assms have "pow2 (binade x) \<le> x" using binade_lower [of x] by simp
  then have "pow2 (binade x) / ?u \<le> x / ?u" using u by (simp add: divide_right_mono)
  moreover have "pow2 (binade x) = pow2 52 * ?u"
    using pow2_add [of 52 "binade x - 52"] by simp
  ultimately have "pow2 52 \<le> x / ?u" using u by simp
  then have "(2 ^ 52 :: real) \<le> x / ?u" by (simp add: pow2_def)
  then have "(2 ^ 52 :: int) \<le> \<lfloor>x / ?u\<rfloor>" by (simp add: le_floor_iff)
  with round_half_even_ge_floor [of "x / ?u"]
  have "(2 ^ 52 :: int) \<le> round_half_even (x / ?u)" by linarith
  then have "(2 ^ 52 :: real) \<le> of_int (round_half_even (x / ?u))"
    by (metis of_int_le_iff of_int_numeral of_int_power)
  then have "2 ^ 52 * ?u \<le> of_int (round_half_even (x / ?u)) * ?u"
    using u by (simp add: mult_right_mono)
  moreover have "pow2 (binade x) = 2 ^ 52 * ?u"
    using pow2_add [of 52 "binade x - 52"] by (simp add: pow2_def)
  moreover have "nearest x = of_int (round_half_even (x / ?u)) * ?u"
    using assms(1) by (simp add: nearest_def Let_def)
  ultimately show ?thesis by simp
qed

lemma round_half_even_le: "y \<le> of_int n \<Longrightarrow> round_half_even y \<le> n"
proof -
  assume a: "y \<le> of_int n"
  show ?thesis
  proof (cases "y = of_int n")
    case True
    then show ?thesis by (simp add: round_half_even_def)
  next
    case False
    with a have "y < of_int n" by simp
    then have "\<lfloor>y\<rfloor> < n" by (simp add: floor_less_iff)
    then show ?thesis by (simp add: round_half_even_def Let_def)
  qed
qed

lemma nearest_le_pow2:
  assumes "0 < x"
  shows "nearest x \<le> pow2 (binade x + 1)"
proof -
  let ?u = "pow2 (binade x - 52)"
  have u: "0 < ?u" by (rule pow2_pos)
  have "53 + (binade x - 52) = binade x + 1" by simp
  then have "pow2 (binade x + 1) = pow2 53 * ?u"
    using pow2_add [of 53 "binade x - 52"] by (simp add: add.commute)
  moreover have "pow2 53 = 2 ^ 53" by (simp add: pow2_def)
  ultimately have p: "pow2 (binade x + 1) = 2 ^ 53 * ?u" by simp
  from assms binade_upper [of x] have "x < 2 ^ 53 * ?u" by (simp add: p)
  then have "x / ?u < 2 ^ 53" using u by (simp add: pos_divide_less_eq)
  then have "x / ?u \<le> of_int (2 ^ 53)" by simp
  then have "round_half_even (x / ?u) \<le> 2 ^ 53" by (rule round_half_even_le)
  then have "(of_int (round_half_even (x / ?u)) :: real) \<le> 2 ^ 53"
    by (metis of_int_le_iff of_int_numeral of_int_power)
  then have "of_int (round_half_even (x / ?u)) * ?u \<le> 2 ^ 53 * ?u"
    using u by (simp add: mult_right_mono)
  moreover have "nearest x = of_int (round_half_even (x / ?u)) * ?u"
    using assms by (simp add: nearest_def Let_def)
  ultimately show ?thesis by (simp add: p)
qed

lemma nearest_nonpos:
  assumes "x \<le> 0"
  shows "nearest x \<le> 0"
proof (cases "x = 0")
  case True
  then show ?thesis by (simp add: nearest_zero)
next
  case False
  let ?u = "pow2 (binade x - 52)"
  have u: "0 < ?u" by (rule pow2_pos)
  have "0 \<le> \<bar>x\<bar> / ?u" using u by simp
  then have "0 \<le> round_half_even (\<bar>x\<bar> / ?u)" by (rule round_half_even_nonneg)
  then have "0 \<le> (of_int (round_half_even (\<bar>x\<bar> / ?u)) :: real) * ?u"
    using u by simp
  moreover have "nearest x = - (of_int (round_half_even (\<bar>x\<bar> / ?u)) * ?u)"
    using assms False by (simp add: nearest_def Let_def)
  ultimately show ?thesis by simp
qed

lemma nearest_one: "nearest 1 = 1"
  by (subst nearest_eval [where e = 0]) (simp_all add: pow2_def round_half_even_def)

text \<open>Roundings near 1: what the test \<open>lifeT >= 1\<close> of the animation step sees.\<close>

lemma nearest_ge_one:
  assumes "1 \<le> y"
  shows "1 \<le> nearest y"
proof -
  have "pow2 0 \<le> \<bar>y\<bar>" using assms by (simp add: pow2_def)
  then have b: "0 \<le> binade y" by (rule binade_ge)
  have "pow2 (- 1022) \<le> pow2 0" by (rule pow2_mono) simp
  then have "pow2 (- 1022) \<le> y" using assms by (simp add: pow2_def)
  with assms have "pow2 (binade y) \<le> nearest y" by (intro nearest_ge_pow2) simp_all
  moreover have "pow2 0 \<le> pow2 (binade y)" using b by (rule pow2_mono)
  ultimately show ?thesis by (simp add: pow2_def)
qed

lemma nearest_lt_one:
  assumes "y \<le> 1 - 1 / 2 ^ 53"
  shows "nearest y < 1"
proof (cases "y \<le> 0")
  case True
  then have "nearest y \<le> 0" by (rule nearest_nonpos)
  then show ?thesis by simp
next
  case False
  then have "\<bar>y\<bar> < pow2 (- 1 + 1)" using assms by (simp add: pow2_def)
  then have "binade y \<le> - 1" using False by (intro binade_le) simp_all
  then have "pow2 (binade y - 52) \<le> pow2 (- 53)" by (intro pow2_mono) simp
  then have "pow2 (binade y - 52) / 2 \<le> 1 / 2 ^ 54" by (simp add: pow2_def)
  with nearest_error [of y] have "nearest y \<le> y + 1 / 2 ^ 54" by linarith
  with assms show ?thesis by simp
qed


text \<open>
  No double lies between \<open>PULSE_LIFETIME\<close> and the double before it: a rounded number
  below \<open>PULSE_LIFETIME\<close> is at least \<open>2^-52\<close> below.
\<close>

lemma nearest_below_lifetime:
  assumes "nearest z < 3152519739159347 / 2251799813685248"
  shows "nearest z \<le> 3152519739159347 / 2251799813685248 - 1 / 2 ^ 52"
proof -
  consider "z \<le> 0" | "0 < z" "z < 1" | "1 \<le> z" "z < 2" | "2 \<le> z" by linarith
  then show ?thesis
  proof cases
    case 1
    then have "nearest z \<le> 0" by (rule nearest_nonpos)
    then show ?thesis by simp
  next
    case 2
    then have "\<bar>z\<bar> < pow2 (- 1 + 1)" by (simp add: pow2_def)
    then have "binade z \<le> - 1" using 2 by (intro binade_le) simp_all
    then have "pow2 (binade z + 1) \<le> pow2 0" by (intro pow2_mono) simp
    with nearest_le_pow2 [OF 2(1)] have "nearest z \<le> 1" by (simp add: pow2_def)
    then show ?thesis by simp
  next
    case 3
    let ?n = "round_half_even (\<bar>z\<bar> / pow2 (0 - 52))"
    have n: "nearest z = of_int ?n * (1 / 2 ^ 52)"
      using 3 by (subst nearest_eval [where e = 0]) (simp_all add: pow2_def)
    have "of_int ?n * (1 / 2 ^ 52) < (of_int 6305039478318694 :: real) * (1 / 2 ^ 52)"
      using assms unfolding n by simp
    then have "(of_int ?n :: real) < of_int 6305039478318694"
      by (simp only: mult_less_cancel_right_pos zero_less_divide_1_iff zero_less_power
                     zero_less_numeral)
    then have "?n < 6305039478318694" by (simp only: of_int_less_iff)
    then have "?n \<le> 6305039478318693" by simp
    then have "(of_int ?n :: real) \<le> of_int 6305039478318693" by (simp only: of_int_le_iff)
    then have "of_int ?n * (1 / 2 ^ 52) \<le> (of_int 6305039478318693 :: real) * (1 / 2 ^ 52)"
      by (intro mult_right_mono) simp_all
    then show ?thesis unfolding n by simp
  next
    case 4
    then have "pow2 1 \<le> \<bar>z\<bar>" by (simp add: pow2_def)
    then have b: "1 \<le> binade z" by (rule binade_ge)
    have "pow2 (- 1022) \<le> pow2 1" by (rule pow2_mono) simp
    then have "pow2 (- 1022) \<le> z" using 4 by (simp add: pow2_def)
    with 4 have "pow2 (binade z) \<le> nearest z" by (intro nearest_ge_pow2) simp_all
    moreover have "pow2 1 \<le> pow2 (binade z)" using b by (rule pow2_mono)
    ultimately have "2 \<le> nearest z" by (simp add: pow2_def)
    with assms show ?thesis by simp
  qed
qed

section \<open>Properties of the relay\<close>

lemma typeof_parse_number: "typeof (parse_json j) = ''number'' \<longleftrightarrow> (\<exists>x. j = JsonNumber x)"
  by (cases j) simp_all

lemma typeof_parse_string: "typeof (parse_json j) = ''string'' \<longleftrightarrow> (\<exists>x. j = JsonString x)"
  by (cases j) simp_all

lemma parse_eq_str: "parse_json j = JStr t \<longleftrightarrow> j = JsonString t"
  by (cases j) auto

lemma truthy_object: "truthy (parse_json (JsonObject kvs))"
  by simp

lemma get_field_parse_obj:
  "get_field (parse_json (JsonObject kvs)) k =
     Inr (case json_member kvs k of None \<Rightarrow> JUndefined | Some j \<Rightarrow> parse_json j)"
  by (simp add: json_member_def rev_map map_of_map split: option.splits)

lemma isPulse_members:
  "isPulse (member_value t) (member_value x) (member_value y) (member_value c) \<longleftrightarrow>
     t = Some (JsonString ''pulse'') \<and> (\<exists>a. x = Some (JsonNumber a))
     \<and> (\<exists>b. y = Some (JsonNumber b)) \<and> (\<exists>d. c = Some (JsonString d))"
  by (cases t; cases x; cases y; cases c)
     (simp_all add: isPulse_def member_value_def typeof_parse_number typeof_parse_string parse_eq_str)

lemma pulse_fields_Some:
  "pulse_fields (JSON (JsonObject kvs)) = Some (a, b, d) \<longleftrightarrow>
     json_member kvs ''type'' = Some (JsonString ''pulse'')
     \<and> json_member kvs ''xNorm'' = Some (JsonNumber a)
     \<and> json_member kvs ''yNorm'' = Some (JsonNumber b)
     \<and> json_member kvs ''color'' = Some (JsonString d)"
  by (auto split: option.splits json.splits)

lemma pulse_fields_None:
  "pulse_fields (JSON (JsonObject kvs)) = None \<longleftrightarrow>
     \<not> (json_member kvs ''type'' = Some (JsonString ''pulse'')
     \<and> (\<exists>a. json_member kvs ''xNorm'' = Some (JsonNumber a))
     \<and> (\<exists>b. json_member kvs ''yNorm'' = Some (JsonNumber b))
     \<and> (\<exists>d. json_member kvs ''color'' = Some (JsonString d)))"
  by (auto split: option.splits json.splits)

lemma stringify_number: "stringify_json (JNum n) = Some (wire_number n)"
  by (cases n) (simp_all add: wire_number_def)

lemma relay_try_object:
  "relay_try s (JSON (JsonObject kvs)) =
     Inr (case pulse_fields (JSON (JsonObject kvs)) of
            None \<Rightarrow> []
          | Some (x, y, c) \<Rightarrow> broadcast (pulse_json (rewritten x) (rewritten y) c) (wss_clients s))"
proof (cases "pulse_fields (JSON (JsonObject kvs))")
  case None
  then have "\<not> isPulse (member_value (json_member kvs ''type'')) (member_value (json_member kvs ''xNorm''))
      (member_value (json_member kvs ''yNorm'')) (member_value (json_member kvs ''color''))"
    unfolding isPulse_members pulse_fields_None by blast
  then show ?thesis
    using None
    by (simp add: relay_try_def and_then_def get_field_parse_obj member_value_def truthy_object
             del: parse_json.simps pulse_fields.simps)
next
  case (Some f)
  obtain x y c where f: "f = (x, y, c)" by (cases f) auto
  from Some f have m: "json_member kvs ''type'' = Some (JsonString ''pulse'')"
    "json_member kvs ''xNorm'' = Some (JsonNumber x)"
    "json_member kvs ''yNorm'' = Some (JsonNumber y)"
    "json_member kvs ''color'' = Some (JsonString c)"
    by (simp_all add: pulse_fields_Some del: pulse_fields.simps)
  show ?thesis
    unfolding Some f
    by (simp add: relay_try_def and_then_def get_field_parse_obj m isPulse_def pulse_json_def
                  stringify_number truthy_object rewritten_def
             del: parse_json.simps(6))
qed

lemma relay_try_other:
  assumes "\<And>kvs. j \<noteq> JsonObject kvs"
  shows "relay_try s (JSON j) = Inr []"
proof (cases j)
  case (JsonNumber x)
  then show ?thesis
    by (simp add: relay_try_def and_then_def isPulse_def literal_value_def)
next
  case (JsonObject kvs)
  with assms show ?thesis by blast
qed (simp_all add: relay_try_def and_then_def isPulse_def)

lemma relay_on_message_eq:
  "relay_on_message s data =
     (s, case pulse_fields data of
           None \<Rightarrow> []
         | Some (x, y, c) \<Rightarrow> broadcast (pulse_json (rewritten x) (rewritten y) c) (wss_clients s))"
proof (cases data)
  case (NotJSON t)
  then show ?thesis by (simp add: relay_on_message_def relay_try_def and_then_def)
next
  case (JSON j)
  show ?thesis
  proof (cases "\<exists>kvs. j = JsonObject kvs")
    case True
    then obtain kvs where "j = JsonObject kvs" by blast
    with JSON show ?thesis
      by (simp add: relay_on_message_def relay_try_object del: pulse_fields.simps)
  next
    case False
    then have "relay_try s (JSON j) = Inr []" by (intro relay_try_other) blast
    moreover from False have "pulse_fields (JSON j) = None" by (cases j) simp_all
    ultimately show ?thesis using JSON by (simp add: relay_on_message_def)
  qed
qed

lemma broadcast_open_clients:
  "broadcast data (wss_clients s) = map (\<lambda>client. (client, data)) (open_clients s)"
proof -
  have "broadcast data cs = map (\<lambda>client. (client, data))
          (map fst (filter (\<lambda>(client, readyState). readyState = OPEN) cs))" for cs
    by (induction cs) auto
  then show ?thesis by (simp add: open_clients_def)
qed

lemma rewritten_1e400: "rewritten literal_1e400 = JsonNull"
proof -
  have "2 ^ 1024 \<le> literal_1e400" by (simp add: literal_1e400_def)
  then show ?thesis
    by (simp add: rewritten_def literal_value_def to_double_overflow wire_number_def)
qed

lemma rewritten_zero: "rewritten 0 = JsonNumber 0"
  by (simp add: rewritten_def literal_values wire_number_def)

lemma rewritten_half: "rewritten (1 / 2) = JsonNumber (1 / 2)"
  by (simp add: rewritten_def literal_values wire_number_def)

text \<open>
  C1. The relay forwards a frame if and only if it satisfies the pulse schema, to every
  open connection of \<open>wss.clients\<close> (the sender is one of them), as a JSON object with
  exactly the fields \<open>type\<close>, \<open>xNorm\<close>, \<open>yNorm\<close>, \<open>color\<close>. A coordinate comes out as it
  came in only when it is a finite double: the frame
  \<open>{"type":"pulse","xNorm":1e400,"yNorm":0,"color":"#ff0000"}\<close> passes the check
  \<open>typeof xNorm === 'number'\<close>, as \<open>Infinity\<close>, and is forwarded with \<open>"xNorm":null\<close>.
\<close>

theorem relay_forwards_overflow_as_null:
  "relay_on_message s data =
     (s, case pulse_fields data of
           None \<Rightarrow> []
         | Some (x, y, c) \<Rightarrow>
             map (\<lambda>client. (client, pulse_json (rewritten x) (rewritten y) c)) (open_clients s))
   \<and> pulse_fields overflow_frame = Some (literal_1e400, 0, ''#ff0000'')
   \<and> relay_on_message example_relay overflow_frame =
       (example_relay,
        [(0, JsonObject [(''type'', JsonString ''pulse''), (''xNorm'', JsonNull),
                         (''yNorm'', JsonNumber 0), (''color'', JsonString ''#ff0000'')]),
         (2, JsonObject [(''type'', JsonString ''pulse''), (''xNorm'', JsonNull),
                         (''yNorm'', JsonNumber 0), (''color'', JsonString ''#ff0000'')])])"
proof (intro conjI)
  show "relay_on_message s data =
     (s, case pulse_fields data of
           None \<Rightarrow> []
         | Some (x, y, c) \<Rightarrow>
             map (\<lambda>client. (client, pulse_json (rewritten x) (rewritten y) c)) (open_clients s))"
    by (simp add: relay_on_message_eq broadcast_open_clients split: option.splits)
  show f: "pulse_fields overflow_frame = Some (literal_1e400, 0, ''#ff0000'')"
    by (simp add: overflow_frame_def json_member_def)
  have o: "broadcast d (wss_clients example_relay) = [(0, d), (2, d)]" for d
    by (simp add: example_relay_def)
  show "relay_on_message example_relay overflow_frame =
       (example_relay,
        [(0, JsonObject [(''type'', JsonString ''pulse''), (''xNorm'', JsonNull),
                         (''yNorm'', JsonNumber 0), (''color'', JsonString ''#ff0000'')]),
         (2, JsonObject [(''type'', JsonString ''pulse''), (''xNorm'', JsonNull),
                         (''yNorm'', JsonNumber 0), (''color'', JsonString ''#ff0000'')])])"
    unfolding relay_on_message_eq f
    by (simp add: rewritten_1e400 rewritten_zero pulse_json_def o)
qed

text \<open>
  C2. A frame that is not JSON, or that fails the pulse schema, makes the relay send
  nothing (so no error goes to the sender either) and leaves its state, the connections
  and their \<open>readyState\<close>, as it was; a frame that satisfies the schema and comes next is
  sent to every open connection.
\<close>

theorem relay_drops_malformed:
  assumes "\<not> satisfies_pulse_schema data"
  shows "relay_on_message s data = (s, [])
     \<and> (pulse_fields data' = Some (x, y, c) \<longrightarrow>
          snd (relay_on_message (fst (relay_on_message s data)) data') =
            map (\<lambda>client. (client, pulse_json (rewritten x) (rewritten y) c)) (open_clients s))"
proof -
  from assms have "pulse_fields data = None"
    unfolding satisfies_pulse_schema_def by blast
  then have 1: "relay_on_message s data = (s, [])" by (simp add: relay_on_message_eq)
  show ?thesis
    unfolding 1 by (simp add: relay_on_message_eq broadcast_open_clients)
qed

theorem relay_drops_malformed_witness:
  "\<not> satisfies_pulse_schema (NotJSON ''{oops'')
   \<and> \<not> satisfies_pulse_schema (JSON (JsonObject [(''type'', JsonString ''pulse''),
          (''xNorm'', JsonString ''0.5''), (''yNorm'', JsonNumber 0)]))
   \<and> relay_on_message example_relay (NotJSON ''{oops'') = (example_relay, [])
   \<and> snd (relay_on_message (fst (relay_on_message example_relay (NotJSON ''{oops'')))
            example_pulse_frame) =
       [(0, pulse_json (JsonNumber (1 / 2)) (JsonNumber (1 / 2)) ''#ff0000''),
        (2, pulse_json (JsonNumber (1 / 2)) (JsonNumber (1 / 2)) ''#ff0000'')]"
proof -
  have n: "\<not> satisfies_pulse_schema (NotJSON ''{oops'')"
    by (simp add: satisfies_pulse_schema_def)
  have f: "pulse_fields example_pulse_frame = Some (1 / 2, 1 / 2, ''#ff0000'')"
    by (simp add: example_pulse_frame_def json_member_def)
  note h = rewritten_half
  have o: "open_clients example_relay = [0, 2]"
    by (simp add: open_clients_def example_relay_def)
  note w = relay_drops_malformed [OF n, of example_relay example_pulse_frame "1 / 2" "1 / 2" "''#ff0000''"]
  from w have a: "relay_on_message example_relay (NotJSON ''{oops'') = (example_relay, [])"
    by (rule conjunct1)
  from w [THEN conjunct2, THEN mp, OF f]
  have b: "snd (relay_on_message (fst (relay_on_message example_relay (NotJSON ''{oops'')))
            example_pulse_frame) =
       [(0, pulse_json (JsonNumber (1 / 2)) (JsonNumber (1 / 2)) ''#ff0000''),
        (2, pulse_json (JsonNumber (1 / 2)) (JsonNumber (1 / 2)) ''#ff0000'')]"
    by (simp only: h o list.map)
  have m: "\<not> satisfies_pulse_schema (JSON (JsonObject [(''type'', JsonString ''pulse''),
          (''xNorm'', JsonString ''0.5''), (''yNorm'', JsonNumber 0)]))"
    by (simp add: satisfies_pulse_schema_def json_member_def)
  from n m a b show ?thesis by (intro conjI)
qed

section \<open>Properties of the client: colours and the message listener\<close>

lemma channel_range: "0 \<le> sint ((w::32 word) AND 255) \<and> sint (w AND 255) \<le> 255"
proof -
  have m: "(255 :: 32 word) = mask 8" by (simp add: mask_eq_exp_minus_1)
  have lt: "uint (w AND 255) < 2 ^ 8" unfolding m by (rule and_mask_lt_2p)
  have ge: "0 \<le> uint (w AND 255)" by simp
  have "sint (w AND 255) = signed_take_bit 31 (uint (w AND 255))"
    by (simp add: sint_uint)
  also have "\<dots> = uint (w AND 255)"
  proof (rule signed_take_bit_int_eq_self)
    have "- (2 ^ 31) \<le> (0::int)" by simp
    also have "(0::int) \<le> uint (w AND 255)" by (rule uint_ge_0)
    finally show "- (2 ^ 31) \<le> uint (w AND 255)" .
    have "(2::int) ^ 8 \<le> 2 ^ 31" by simp
    with lt show "uint (w AND 255) < 2 ^ 31" by (rule less_le_trans)
  qed
  finally show ?thesis using lt ge by simp
qed

lemma hexToRgb_channels: "hexToRgb (JStr hex) = Inr (channels hex)"
  by (simp add: channels_def Let_def)

lemma channels_range:
  "0 \<le> rgb_r (channels hex) \<and> rgb_r (channels hex) \<le> 255
   \<and> 0 \<le> rgb_g (channels hex) \<and> rgb_g (channels hex) \<le> 255
   \<and> 0 \<le> rgb_b (channels hex) \<and> rgb_b (channels hex) \<le> 255"
  by (simp add: channels_def Let_def channel_range)

lemma channels_NaN:
  "parseInt16 (remove_first_hash hex) = NaN \<Longrightarrow>
     channels hex = \<lparr>rgb_r = 0, rgb_g = 0, rgb_b = 0\<rparr>"
  by (simp add: channels_def)

lemma spawnPulse_string:
  "spawnPulse nx ny (JStr hex) s = Inr (s\<lparr>pulses := pulses s @ [new_pulse nx ny (channels hex)]\<rparr>)"
  by (simp add: spawnPulse_def and_then_def hexToRgb_channels new_pulse_def del: hexToRgb.simps)

lemma get_field_member:
  "get_field (parse_json (JsonObject kvs)) k = Inr (member_value (json_member kvs k))"
  by (simp only: get_field_parse_obj member_value_def)

lemma client_handle_parsed_object:
  "client_handle_parsed s (parse_json (JsonObject kvs)) =
     Inr (case pulse_fields (JSON (JsonObject kvs)) of
            None \<Rightarrow> s
          | Some (x, y, c) \<Rightarrow>
              s\<lparr>pulses := pulses s @
                   [new_pulse (renormalized (canvas_width s) (literal_value x))
                              (renormalized (canvas_height s) (literal_value y))
                              (channels c)]\<rparr>)"
proof (cases "pulse_fields (JSON (JsonObject kvs))")
  case None
  then have "\<not> isPulse (member_value (json_member kvs ''type'')) (member_value (json_member kvs ''xNorm''))
      (member_value (json_member kvs ''yNorm'')) (member_value (json_member kvs ''color''))"
    unfolding isPulse_members pulse_fields_None by blast
  then have g: "\<not> (member_value (json_member kvs ''type'') = JStr ''pulse''
      \<and> typeof (member_value (json_member kvs ''xNorm'')) = ''number''
      \<and> typeof (member_value (json_member kvs ''yNorm'')) = ''number''
      \<and> typeof (member_value (json_member kvs ''color'')) = ''string'')"
    unfolding isPulse_def .
  show ?thesis
    unfolding None client_handle_parsed_def and_then_def
    by (simp add: get_field_member truthy_object g del: parse_json.simps)
next
  case (Some f)
  obtain x y c where f: "f = (x, y, c)" by (cases f) auto
  from Some f have m: "json_member kvs ''type'' = Some (JsonString ''pulse'')"
    "json_member kvs ''xNorm'' = Some (JsonNumber x)"
    "json_member kvs ''yNorm'' = Some (JsonNumber y)"
    "json_member kvs ''color'' = Some (JsonString c)"
    by (simp_all add: pulse_fields_Some del: pulse_fields.simps)
  show ?thesis
    unfolding Some f
    by (simp add: client_handle_parsed_def and_then_def get_field_parse_obj m truthy_object
                  spawnPulse_string renormalized_def Let_def
             del: parse_json.simps(6) hexToRgb.simps)
qed

lemma client_handle_parsed_other:
  assumes "\<And>kvs. j \<noteq> JsonObject kvs"
  shows "client_handle_parsed s (parse_json j) = Inr s"
proof (cases j)
  case (JsonNumber x)
  then show ?thesis
    by (simp add: client_handle_parsed_def and_then_def literal_value_def)
next
  case (JsonObject kvs)
  with assms show ?thesis by blast
qed (simp_all add: client_handle_parsed_def and_then_def)

lemma client_on_message_eq:
  "client_on_message s data =
     (case pulse_fields data of
        None \<Rightarrow> s
      | Some (x, y, c) \<Rightarrow>
          s\<lparr>pulses := pulses s @
               [new_pulse (renormalized (canvas_width s) (literal_value x))
                          (renormalized (canvas_height s) (literal_value y))
                          (channels c)]\<rparr>)"
proof (cases data)
  case (NotJSON t)
  then show ?thesis by (simp add: client_on_message_def client_try_message_def and_then_def)
next
  case (JSON j)
  show ?thesis
  proof (cases "\<exists>kvs. j = JsonObject kvs")
    case True
    then obtain kvs where "j = JsonObject kvs" by blast
    with JSON show ?thesis
      by (simp add: client_on_message_def client_try_message_def and_then_def
                    client_handle_parsed_object
               del: pulse_fields.simps parse_json.simps)
  next
    case False
    then have "client_handle_parsed s (parse_json j) = Inr s"
      by (intro client_handle_parsed_other) blast
    moreover from False have "pulse_fields (JSON j) = None" by (cases j) simp_all
    ultimately show ?thesis using JSON
      by (simp add: client_on_message_def client_try_message_def and_then_def)
  qed
qed

lemma client_try_message_returns: "\<exists>s'. client_try_message s (JSON j) = Inr s'"
proof (cases "\<exists>kvs. j = JsonObject kvs")
  case True
  then obtain kvs where "j = JsonObject kvs" by blast
  then show ?thesis
    by (simp add: client_try_message_def and_then_def client_handle_parsed_object
             del: pulse_fields.simps parse_json.simps)
next
  case False
  then have "client_handle_parsed s (parse_json j) = Inr s"
    by (intro client_handle_parsed_other) blast
  then show ?thesis by (simp add: client_try_message_def and_then_def)
qed

lemma parseInt16_zzz: "parseInt16 (remove_first_hash ''zzz'') = NaN"
  by (simp add: parseInt16_def is_white_space_def hex_digit_def)

text \<open>
  C10. For every string, \<open>hexToRgb\<close> returns a colour whose three channels are integers
  from 0 to 255, and the colour \<open>(0, 0, 0)\<close> when \<open>parseInt\<close> finds no hexadecimal digit;
  \<open>spawnPulse\<close> then appends the pulse. The \<open>try\<close> block of the message listener returns
  normally on every frame that is JSON, whatever string its \<open>color\<close> is, and a frame that
  is not JSON leaves the client as it was.
\<close>

theorem hexToRgb_total_on_strings:
  "hexToRgb (JStr color) = Inr (channels color)
   \<and> 0 \<le> rgb_r (channels color) \<and> rgb_r (channels color) \<le> 255
   \<and> 0 \<le> rgb_g (channels color) \<and> rgb_g (channels color) \<le> 255
   \<and> 0 \<le> rgb_b (channels color) \<and> rgb_b (channels color) \<le> 255
   \<and> (parseInt16 (remove_first_hash color) = NaN \<longrightarrow>
        channels color = \<lparr>rgb_r = 0, rgb_g = 0, rgb_b = 0\<rparr>)
   \<and> spawnPulse nx ny (JStr color) s =
        Inr (s\<lparr>pulses := pulses s @ [new_pulse nx ny (channels color)]\<rparr>)
   \<and> (\<exists>s'. client_try_message s (JSON j) = Inr s')
   \<and> client_on_message s (NotJSON t) = s"
proof -
  have "client_on_message s (NotJSON t) = s"
    by (simp add: client_on_message_eq)
  with channels_range [of color] show ?thesis
    by (simp add: hexToRgb_channels spawnPulse_string client_try_message_returns channels_NaN
             del: hexToRgb.simps)
qed

theorem hexToRgb_total_on_strings_witness:
  "parseInt16 (remove_first_hash ''zzz'') = NaN
   \<and> hexToRgb (JStr ''zzz'') = Inr \<lparr>rgb_r = 0, rgb_g = 0, rgb_b = 0\<rparr>"
proof -
  note w = hexToRgb_total_on_strings [of "''zzz''"]
  from w have a: "hexToRgb (JStr ''zzz'') = Inr (channels ''zzz'')" by (rule conjunct1)
  from w have "parseInt16 (remove_first_hash ''zzz'') = NaN \<longrightarrow>
        channels ''zzz'' = \<lparr>rgb_r = 0, rgb_g = 0, rgb_b = 0\<rparr>" by blast
  with parseInt16_zzz have "channels ''zzz'' = \<lparr>rgb_r = 0, rgb_g = 0, rgb_b = 0\<rparr>" by (rule rev_mp)
  with a parseInt16_zzz show ?thesis by (simp del: hexToRgb.simps)
qed

text \<open>The colours of the examples.\<close>

lemma channels_3399ff: "channels ''#3399ff'' = \<lparr>rgb_r = 51, rgb_g = 153, rgb_b = 255\<rparr>"
  by (simp add: channels_def parseInt16_def is_white_space_def hex_digit_def nearest_double_def)

lemma channels_ff0000: "channels ''#ff0000'' = \<lparr>rgb_r = 255, rgb_g = 0, rgb_b = 0\<rparr>"
  by (simp add: channels_def parseInt16_def is_white_space_def hex_digit_def nearest_double_def)

section \<open>Listening and reconnecting\<close>

text \<open>
  C7. The port is \<open>process.env.PORT\<close> when it is set and not empty, else the default
  3000, and the host is \<open>0.0.0.0\<close>. There is no secondary port: with no \<open>PORT\<close> set
  and port 3000 in use, or with \<open>PORT\<close> set to 3000 or 8080 and that port in use, the
  server does not listen at all, whatever else is free. A \<open>PORT\<close> that is not a number
  is taken as the path of a local socket.
\<close>

theorem listen_has_no_secondary_port:
  "HTTP_PORT None = PortNumber 3000
   \<and> HTTP_PORT (Some '''') = PortNumber 3000
   \<and> HTTP_PORT (Some ''8080'') = PortString ''8080''
   \<and> server_listen None (\<lambda>n. False) path_in_use = Listening ''0.0.0.0'' 3000
   \<and> server_listen None (\<lambda>n. n = 3000) path_in_use = Unhandled_EADDRINUSE
   \<and> server_listen (Some ''3000'') (\<lambda>n. n = 3000) path_in_use = Unhandled_EADDRINUSE
   \<and> server_listen (Some ''8080'') (\<lambda>n. n = 8080) path_in_use = Unhandled_EADDRINUSE
   \<and> server_listen (Some ''8080'') (\<lambda>n. False) path_in_use = Listening ''0.0.0.0'' 8080
   \<and> server_listen (Some ''abc'') port_in_use (\<lambda>p. False) = ListeningOnPath ''abc''"
  by (simp add: HTTP_PORT_def server_listen_def listen_target_of_def HOST_def decimal_digit_def
                begins_with_letter_def)

lemma step_close_timers:
  "timers (step SocketClose s) = timers s @ [\<lparr>delay_ms = 500, handler = ConnectWebSocket\<rparr>]"
  by (simp add: client_on_close_def)

lemma step_close_opened: "opened (step SocketClose s) = opened s"
  by (simp add: client_on_close_def)

lemma close_then_fire_opened:
  "opened (step TimerFires (step SocketClose s)) = opened s + 1"
proof (cases "timers s")
  case Nil
  then show ?thesis by (simp add: client_on_close_def connectWebSocket_def)
next
  case (Cons t rest)
  then show ?thesis
    by (cases "handler t") (simp add: client_on_close_def connectWebSocket_def)
qed

lemma close_then_fire_socket:
  "socket (step TimerFires (step SocketClose s)) = Some CONNECTING"
proof (cases "timers s")
  case Nil
  then show ?thesis by (simp add: client_on_close_def connectWebSocket_def)
next
  case (Cons t rest)
  then show ?thesis
    by (cases "handler t") (simp add: client_on_close_def connectWebSocket_def)
qed

lemma run_append: "run (es @ fs) s = run fs (run es s)"
  by (induction es arbitrary: s) simp_all

lemma rounds_opened:
  "opened (run (concat (replicate n [SocketClose, TimerFires])) s) = opened s + n"
proof (induction n arbitrary: s)
  case 0
  show ?case by simp
next
  case (Suc n)
  have "opened (run (concat (replicate (Suc n) [SocketClose, TimerFires])) s) =
        opened (run (concat (replicate n [SocketClose, TimerFires]))
                  (step TimerFires (step SocketClose s)))"
    by simp
  also have "\<dots> = opened (step TimerFires (step SocketClose s)) + n"
    by (rule Suc.IH)
  also have "\<dots> = opened s + Suc n"
    by (simp add: close_then_fire_opened del: step.simps)
  finally show ?case .
qed

text \<open>
  C9. In every state, whatever came before, the \<open>close\<close> listener adds exactly one timer,
  with the delay 500 and the callback \<open>connectWebSocket\<close>, and opens no connection
  itself; when the timer fires, exactly one connection is opened. The delay does not
  depend on the state and nothing counts the attempts: \<open>n\<close> rounds of closing and firing
  open \<open>n\<close> connections, for every \<open>n\<close>.
\<close>

theorem reconnect_after_fixed_delay:
  "timers (step SocketClose (run history s)) =
     timers (run history s) @ [\<lparr>delay_ms = 500, handler = ConnectWebSocket\<rparr>]
   \<and> opened (step SocketClose (run history s)) = opened (run history s)
   \<and> opened (step TimerFires (step SocketClose (run history s))) = opened (run history s) + 1
   \<and> socket (step TimerFires (step SocketClose (run history s))) = Some CONNECTING
   \<and> opened (run (concat (replicate n [SocketClose, TimerFires])) s) = opened s + n"
  by (simp only: step_close_timers step_close_opened close_then_fire_opened
                 close_then_fire_socket rounds_opened simp_thms)

section \<open>The doubles of the examples\<close>

text \<open>
  The roundings that occur when the example pages below receive their events: the
  argument is the exact result of an operation, the value is the double the operation
  returns. Most arguments are doubles already.
\<close>

lemma example_rounding_1: "nearest (16) = 16"
  by (subst nearest_eval [where e = 4]) (simp_all add: pow2_def round_half_even_def)

lemma example_rounding_2: "nearest (2 / 125) = 1152921504606847 / 72057594037927936"
  by (subst nearest_eval [where e = "- 6"]) (simp_all add: pow2_def round_half_even_def)

lemma example_rounding_3: "nearest (121056757983718935 / 18014398509481984) = 7566047373982433 / 1125899906842624"
  by (subst nearest_eval [where e = 2]) (simp_all add: pow2_def round_half_even_def)

lemma example_rounding_4: "nearest (1152921504606847 / 72057594037927936) = 1152921504606847 / 72057594037927936"
  by (subst nearest_eval [where e = "- 6"]) (simp_all add: pow2_def round_half_even_def)

lemma example_rounding_5: "nearest (7566047373982433 / 1125899906842624) = 7566047373982433 / 1125899906842624"
  by (subst nearest_eval [where e = 2]) (simp_all add: pow2_def round_half_even_def)

lemma example_rounding_6: "nearest (1152921504606847 / 36028797018963968) = 1152921504606847 / 36028797018963968"
  by (subst nearest_eval [where e = "- 5"]) (simp_all add: pow2_def round_half_even_def)

lemma example_rounding_7: "nearest (7566047373982433 / 562949953421312) = 7566047373982433 / 562949953421312"
  by (subst nearest_eval [where e = 3]) (simp_all add: pow2_def round_half_even_def)

lemma example_rounding_8: "nearest (3458764513820541 / 72057594037927936) = 3458764513820541 / 72057594037927936"
  by (subst nearest_eval [where e = "- 5"]) (simp_all add: pow2_def round_half_even_def)

lemma example_rounding_9: "nearest (22698142121947299 / 1125899906842624) = 5674535530486825 / 281474976710656"
  by (subst nearest_eval [where e = 4]) (simp_all add: pow2_def round_half_even_def)

lemma example_rounding_10: "nearest (1000) = 1000"
  by (subst nearest_eval [where e = 9]) (simp_all add: pow2_def round_half_even_def)

lemma example_rounding_11: "nearest (378302368699121685 / 18014398509481984) = 21"
  by (subst nearest_eval [where e = 4]) (simp_all add: pow2_def round_half_even_def)

lemma example_rounding_12: "nearest (3602879701896397 / 72057594037927936) = 3602879701896397 / 72057594037927936"
  by (subst nearest_eval [where e = "- 5"]) (simp_all add: pow2_def round_half_even_def)

lemma example_rounding_13: "nearest (21) = 21"
  by (subst nearest_eval [where e = 4]) (simp_all add: pow2_def round_half_even_def)

lemma example_rounding_14: "nearest (3602879701896397 / 36028797018963968) = 3602879701896397 / 36028797018963968"
  by (subst nearest_eval [where e = "- 4"]) (simp_all add: pow2_def round_half_even_def)

lemma example_rounding_15: "nearest (42) = 42"
  by (subst nearest_eval [where e = 5]) (simp_all add: pow2_def round_half_even_def)

lemma example_rounding_16: "nearest (10808639105689191 / 72057594037927936) = 1351079888211149 / 9007199254740992"
  by (subst nearest_eval [where e = "- 3"]) (simp_all add: pow2_def round_half_even_def)

lemma example_rounding_17: "nearest (63) = 63"
  by (subst nearest_eval [where e = 5]) (simp_all add: pow2_def round_half_even_def)

lemma example_rounding_18: "nearest (141863388262170645 / 2251799813685248) = 8866461766385665 / 140737488355328"
  by (subst nearest_eval [where e = 5]) (simp_all add: pow2_def round_half_even_def)

lemma example_rounding_19: "nearest (363170273951156805 / 18014398509481984) = 5674535530486825 / 281474976710656"
  by (subst nearest_eval [where e = 4]) (simp_all add: pow2_def round_half_even_def)

lemma example_rounding_20: "nearest (400) = 400"
  by (subst nearest_eval [where e = 8]) (simp_all add: pow2_def round_half_even_def)

lemma example_rounding_21: "nearest (300) = 300"
  by (subst nearest_eval [where e = 8]) (simp_all add: pow2_def round_half_even_def)

lemma example_rounding_22: "nearest (800) = 800"
  by (subst nearest_eval [where e = 9]) (simp_all add: pow2_def round_half_even_def)

lemma example_rounding_23: "nearest (600) = 600"
  by (subst nearest_eval [where e = 9]) (simp_all add: pow2_def round_half_even_def)

lemma example_rounding_24: "nearest (1025 / 8) = 1025 / 8"
  by (subst nearest_eval [where e = 7]) (simp_all add: pow2_def round_half_even_def)

lemma example_rounding_25: "nearest (1025 / 1024) = 1025 / 1024"
  by (subst nearest_eval [where e = 0]) (simp_all add: pow2_def round_half_even_def)

lemma example_rounding_26: "nearest (64) = 64"
  by (subst nearest_eval [where e = 6]) (simp_all add: pow2_def round_half_even_def)

lemma example_rounding_27: "nearest (128) = 128"
  by (subst nearest_eval [where e = 7]) (simp_all add: pow2_def round_half_even_def)

lemma example_rounding_28: "nearest (513 / 4) = 513 / 4"
  by (subst nearest_eval [where e = 7]) (simp_all add: pow2_def round_half_even_def)

lemma example_rounding_29: "nearest (44) = 44"
  by (subst nearest_eval [where e = 5]) (simp_all add: pow2_def round_half_even_def)

lemma example_rounding_30: "nearest (556) = 556"
  by (subst nearest_eval [where e = 9]) (simp_all add: pow2_def round_half_even_def)

lemma example_rounding_31: "nearest (525825 / 4096) = 525825 / 4096"
  by (subst nearest_eval [where e = 7]) (simp_all add: pow2_def round_half_even_def)

lemma example_rounding_32: "nearest (513 / 8) = 513 / 8"
  by (subst nearest_eval [where e = 6]) (simp_all add: pow2_def round_half_even_def)

lemmas example_roundings =
  nearest_zero nearest_one nearest_half
  example_rounding_1 example_rounding_2 example_rounding_3 example_rounding_4
  example_rounding_5 example_rounding_6 example_rounding_7 example_rounding_8
  example_rounding_9 example_rounding_10 example_rounding_11 example_rounding_12
  example_rounding_13 example_rounding_14 example_rounding_15 example_rounding_16
  example_rounding_17 example_rounding_18 example_rounding_19 example_rounding_20
  example_rounding_21 example_rounding_22 example_rounding_23 example_rounding_24
  example_rounding_25 example_rounding_26 example_rounding_27 example_rounding_28
  example_rounding_29 example_rounding_30 example_rounding_31 example_rounding_32

section \<open>The animation loop\<close>

lemma PULSE_LIFETIME_pos: "0 < PULSE_LIFETIME"
  by (simp add: PULSE_LIFETIME_value)


text \<open>
  The test \<open>lifeT >= 1\<close> divides in double arithmetic. It succeeds from \<open>PULSE_LIFETIME\<close>
  on and fails up to the double before \<open>PULSE_LIFETIME\<close>; an age is a double, so the
  test removes a pulse exactly when its age has reached \<open>PULSE_LIFETIME\<close>.
\<close>

lemma lifeT_at_reached:
  assumes "PULSE_LIFETIME \<le> a"
  shows "lifeT_at a = 1"
proof -
  from assms PULSE_LIFETIME_pos have "1 \<le> a / PULSE_LIFETIME"
    by (simp add: pos_le_divide_eq)
  then have "1 \<le> nearest (a / PULSE_LIFETIME)" by (rule nearest_ge_one)
  then show ?thesis by (simp add: lifeT_at_def)
qed

lemma lifeT_at_before:
  assumes "a \<le> PULSE_LIFETIME - 1 / 2 ^ 52"
  shows "lifeT_at a < 1"
proof -
  have "PULSE_LIFETIME - 1 / 2 ^ 52 \<le> (1 - 1 / 2 ^ 53) * PULSE_LIFETIME"
    by (simp add: PULSE_LIFETIME_value)
  with assms have "a \<le> (1 - 1 / 2 ^ 53) * PULSE_LIFETIME" by linarith
  then have "a / PULSE_LIFETIME \<le> 1 - 1 / 2 ^ 53"
    using PULSE_LIFETIME_pos by (simp only: pos_divide_le_eq)
  then have "nearest (a / PULSE_LIFETIME) < 1" by (rule nearest_lt_one)
  then show ?thesis by (simp add: lifeT_at_def)
qed

lemma lifeT_at_rounded: "lifeT_at (nearest z) < 1 \<longleftrightarrow> nearest z < PULSE_LIFETIME"
proof
  assume "lifeT_at (nearest z) < 1"
  then show "nearest z < PULSE_LIFETIME"
    using lifeT_at_reached [of "nearest z"] by (cases "PULSE_LIFETIME \<le> nearest z") simp_all
next
  assume "nearest z < PULSE_LIFETIME"
  then have "nearest z \<le> PULSE_LIFETIME - 1 / 2 ^ 52"
    unfolding PULSE_LIFETIME_value by (rule nearest_below_lifetime)
  then show "lifeT_at (nearest z) < 1" by (rule lifeT_at_before)
qed

lemma alive_advance: "alive (advance dt p) \<longleftrightarrow> age (advance dt p) < PULSE_LIFETIME"
  using lifeT_at_rounded [of "age p + dt"] by (simp add: alive_def advance_def not_le)

lemma survivors:
  "filter alive (map (advance dt) qs) =
   filter (\<lambda>p. age p < PULSE_LIFETIME) (map (advance dt) qs)"
  by (induction qs) (simp_all add: alive_advance)

lemma deltaSec_le: "deltaSec_of now previous \<le> MAX_STEP"
  by (simp add: deltaSec_of_def)

lemma deltaSec_nonneg: "previous \<le> now \<Longrightarrow> 0 \<le> deltaSec_of now previous"
  by (simp add: deltaSec_of_def nearest_nonneg MAX_STEP_value)

lemma paintable_advance:
  assumes "paintable w h p" "0 \<le> dt"
  shows "throws_for w h (advance dt p) = None"
proof -
  from assms(1) obtain a b where ab:
      "js_mul (normX p) (Finite w) = Finite a" "js_mul (normY p) (Finite h) = Finite b"
    by (cases "js_mul (normX p) (Finite w)"; cases "js_mul (normY p) (Finite h)")
       (simp_all add: paintable_def)
  from assms have "0 \<le> radius p + nearest (GROWTH_RATE * dt)"
    by (simp add: paintable_def GROWTH_RATE_def nearest_nonneg)
  then have "0 \<le> nearest (radius p + nearest (GROWTH_RATE * dt))"
    by (rule nearest_nonneg)
  with ab show ?thesis
    by (simp add: throws_for_def createRadialGradient_def advance_def)
qed

text \<open>A loop in which no drawing throws: every pulse is advanced, the dead ones go.\<close>

lemma animate_loop_completes:
  assumes "i \<le> length ps"
    and "list_all (\<lambda>q. throws_for w h (advance dt q) = None) (take i ps)"
  shows "animate_loop dt w h i ps ds =
     (filter alive (map (advance dt) (take i ps)) @ drop i ps,
      ds @ map (draw_pulse w h) (rev (filter alive (map (advance dt) (take i ps)))),
      None)"
  using assms
proof (induction i arbitrary: ps ds)
  case 0
  show ?case by simp
next
  case (Suc i)
  then have i: "i < length ps" by simp
  let ?p = "advance dt (ps ! i)"
  have t: "take (Suc i) ps = take i ps @ [ps ! i]"
    using i by (rule take_Suc_conv_app_nth)
  from Suc.prems(2) have ok: "list_all (\<lambda>q. throws_for w h (advance dt q) = None) (take i ps)"
    and this_ok: "throws_for w h ?p = None"
    by (simp_all add: t)
  show ?case
  proof (cases "alive ?p")
    case False
    have len: "i \<le> length (take i ps @ drop (Suc i) ps)" using i by simp
    have tk: "take i (take i ps @ drop (Suc i) ps) = take i ps" using i by simp
    have dr: "drop i (take i ps @ drop (Suc i) ps) = drop (Suc i) ps" using i by simp
    from False have "animate_loop dt w h (Suc i) ps ds =
        animate_loop dt w h i (take i ps @ drop (Suc i) ps) ds"
      by (simp add: alive_def Let_def)
    also have "\<dots> = (filter alive (map (advance dt) (take i ps)) @ drop (Suc i) ps,
        ds @ map (draw_pulse w h) (rev (filter alive (map (advance dt) (take i ps)))), None)"
      using Suc.IH [OF len, of ds] ok unfolding tk dr by simp
    finally show ?thesis using False by (simp add: t)
  next
    case True
    have len: "i \<le> length (ps[i := ?p])" using i by simp
    have tk: "take i (ps[i := ?p]) = take i ps" by simp
    have dr: "drop i (ps[i := ?p]) = ?p # drop (Suc i) ps"
      using i by (simp add: upd_conv_take_nth_drop)
    from True this_ok have "animate_loop dt w h (Suc i) ps ds =
        animate_loop dt w h i (ps[i := ?p]) (ds @ [draw_pulse w h ?p])"
      by (simp add: alive_def Let_def throws_for_def)
    also have "\<dots> = (filter alive (map (advance dt) (take i ps)) @ ?p # drop (Suc i) ps,
        (ds @ [draw_pulse w h ?p]) @
          map (draw_pulse w h) (rev (filter alive (map (advance dt) (take i ps)))), None)"
      using Suc.IH [OF len, of "ds @ [draw_pulse w h ?p]"] ok unfolding tk dr by simp
    finally show ?thesis using True by (simp add: t)
  qed
qed

text \<open>
  Any loop: the pulses below some index are untouched, those from it on are advanced, and
  of these the dead ones go. Nothing else leaves the array.
\<close>

lemma animate_loop_pulses:
  assumes "i \<le> length ps"
  shows "\<exists>k\<le>i. fst (animate_loop dt w h i ps ds) =
           take k ps @ filter alive (map (advance dt) (drop k (take i ps))) @ drop i ps"
  using assms
proof (induction i arbitrary: ps ds)
  case 0
  show ?case by simp
next
  case (Suc i)
  then have i: "i < length ps" by simp
  let ?p = "advance dt (ps ! i)"
  have t: "take (Suc i) ps = take i ps @ [ps ! i]"
    using i by (rule take_Suc_conv_app_nth)
  have d: "drop k (take (Suc i) ps) = drop k (take i ps) @ [ps ! i]" if "k \<le> i" for k
    using that i by (simp add: t)
  show ?case
  proof (cases "alive ?p")
    case False
    let ?qs = "take i ps @ drop (Suc i) ps"
    have len: "i \<le> length ?qs" using i by simp
    have tk: "take i ?qs = take i ps" using i by simp
    have dr: "drop i ?qs = drop (Suc i) ps" using i by simp
    from Suc.IH [OF len, of ds] obtain k where k: "k \<le> i"
      and r: "fst (animate_loop dt w h i ?qs ds) =
          take k ?qs @ filter alive (map (advance dt) (drop k (take i ?qs))) @ drop i ?qs"
      by blast
    have tkk: "take k ?qs = take k ps" using k i by simp
    from False have e: "animate_loop dt w h (Suc i) ps ds = animate_loop dt w h i ?qs ds"
      by (simp add: alive_def Let_def)
    from r have r': "fst (animate_loop dt w h i ?qs ds) =
        take k ps @ filter alive (map (advance dt) (drop k (take i ps))) @ drop (Suc i) ps"
      unfolding tk dr tkk .
    have "fst (animate_loop dt w h (Suc i) ps ds) =
        take k ps @ filter alive (map (advance dt) (drop k (take (Suc i) ps))) @ drop (Suc i) ps"
      unfolding e r' d [OF k] using False by simp
    with k show ?thesis by (intro exI [of _ k]) simp
  next
    case True
    show ?thesis
    proof (cases "throws_for w h ?p")
      case (Some err)
      with True have "animate_loop dt w h (Suc i) ps ds = (ps[i := ?p], ds, Some err)"
        by (simp add: alive_def Let_def throws_for_def)
      moreover have "ps[i := ?p] =
          take i ps @ filter alive (map (advance dt) (drop i (take (Suc i) ps))) @ drop (Suc i) ps"
        using i True by (simp add: upd_conv_take_nth_drop t)
      ultimately show ?thesis by (intro exI [of _ i]) simp
    next
      case None
      let ?qs = "ps[i := ?p]"
      have len: "i \<le> length ?qs" using i by simp
      have tk: "take i ?qs = take i ps" by simp
      have dr: "drop i ?qs = ?p # drop (Suc i) ps"
        using i by (simp add: upd_conv_take_nth_drop)
      from Suc.IH [OF len, of "ds @ [draw_pulse w h ?p]"] obtain k where k: "k \<le> i"
        and r: "fst (animate_loop dt w h i ?qs (ds @ [draw_pulse w h ?p])) =
            take k ?qs @ filter alive (map (advance dt) (drop k (take i ?qs))) @ drop i ?qs"
        by blast
      have tkk: "take k ?qs = take k ps" using k i by simp
      from True None have e: "animate_loop dt w h (Suc i) ps ds =
          animate_loop dt w h i ?qs (ds @ [draw_pulse w h ?p])"
        by (simp add: alive_def Let_def throws_for_def)
      from r have r': "fst (animate_loop dt w h i ?qs (ds @ [draw_pulse w h ?p])) =
          take k ps @ filter alive (map (advance dt) (drop k (take i ps))) @ ?p # drop (Suc i) ps"
        unfolding tk dr tkk .
      have "fst (animate_loop dt w h (Suc i) ps ds) =
          take k ps @ filter alive (map (advance dt) (drop k (take (Suc i) ps))) @ drop (Suc i) ps"
        unfolding e r' d [OF k] using True by simp
      with k show ?thesis by (intro exI [of _ k]) simp
    qed
  qed
qed

lemma animate_pulses:
  "\<exists>k\<le>length (pulses s). pulses (fst (animate now s)) =
      take k (pulses s) @
      filter alive (map (advance (deltaSec_of now (lastTime s))) (drop k (pulses s)))"
proof -
  from animate_loop_pulses [of "length (pulses s)" "pulses s" "deltaSec_of now (lastTime s)"
      "cssWidth s" "cssHeight s" "[]"]
  obtain k where "k \<le> length (pulses s)"
    and "fst (animate_loop (deltaSec_of now (lastTime s)) (cssWidth s) (cssHeight s)
               (length (pulses s)) (pulses s) []) =
         take k (pulses s) @
         filter alive (map (advance (deltaSec_of now (lastTime s))) (drop k (pulses s)))"
    by auto
  then show ?thesis
    by (intro exI [of _ k]) (simp add: animate_def Let_def split_beta)
qed

lemma animate_completes:
  assumes "lastTime s \<le> now" "list_all (paintable (cssWidth s) (cssHeight s)) (pulses s)"
  shows "animate now s =
     (s\<lparr>lastTime := now,
        pulses := filter alive (map (advance (deltaSec_of now (lastTime s))) (pulses s)),
        frame_requested := True\<rparr>,
      map (draw_pulse (cssWidth s) (cssHeight s))
        (rev (filter alive (map (advance (deltaSec_of now (lastTime s))) (pulses s)))),
      None)"
proof -
  let ?dt = "deltaSec_of now (lastTime s)"
  from assms(1) have dt: "0 \<le> ?dt" by (rule deltaSec_nonneg)
  from assms(2) have "list_all (\<lambda>q. throws_for (cssWidth s) (cssHeight s) (advance ?dt q) = None)
      (take (length (pulses s)) (pulses s))"
    by (simp add: list_all_iff paintable_advance [OF _ dt])
  then show ?thesis
    by (simp add: animate_def animate_loop_completes Let_def)
qed

lemma lastTime_animate: "lastTime (fst (animate now s)) = now"
  by (simp add: animate_def Let_def split_beta)



lemma alpha_at_end: "alpha_at PULSE_LIFETIME = 0"
  by (simp add: alpha_at_def lifeT_at_reached)



lemma advance_fields:
  "advance dt = (\<lambda>p. p\<lparr>age := nearest (age p + dt),
                         radius := nearest (radius p + nearest (420 * dt))\<rparr>)"
  by (rule ext) (simp add: advance_def GROWTH_RATE_def)

section \<open>The example page and its frames\<close>

lemma example_client_fields:
  "canvas_width example_client = 800" "canvas_height example_client = 600"
  "cssWidth example_client = 800" "cssHeight example_client = 600"
  "deviceRatio example_client = 1" "bounding_rect example_client = example_rect"
  "pulses example_client = []" "sent example_client = []" "timers example_client = []"
  "socket example_client = Some CONNECTING" "lastTime example_client = 0"
  "frame_requested example_client"
  "cp_x (picker example_client) = Some 44" "cp_y (picker example_client) = Some 556"
  "cp_radius (picker example_client) = 20" "input_value (picker example_client) = ''#3399ff''"
  by (simp_all add: example_client_def init_def connectWebSocket_def resizeCanvas_def
                    positionColorPicker_def example_rect_def Math_round_def Let_def
                    null_as_zero_def example_roundings)

lemma one_pulse_client_fields:
  "pulses one_pulse_client =
     [\<lparr>normX = Finite (1 / 2), normY = Finite (1 / 2),
       rgb = \<lparr>rgb_r = 255, rgb_g = 0, rgb_b = 0\<rparr>, radius = 0, age = 0\<rparr>]"
  "lastTime one_pulse_client = 0" "frame_requested one_pulse_client"
  "cssWidth one_pulse_client = 800" "cssHeight one_pulse_client = 600"
  by (simp_all add: one_pulse_client_def client_on_message_eq example_pulse_frame_def
                    json_member_def example_client_fields renormalized_def clamp01_def
                    literal_values to_double_def example_roundings new_pulse_def
                    channels_ff0000)

text \<open>A frame on a page with one pulse, which it can draw and which stays.\<close>

lemma frame_on_one_pulse:
  assumes "frame_requested s" "pulses s = [p]" "lastTime s \<le> now"
    and "paintable (cssWidth s) (cssHeight s) p"
    and "advance (deltaSec_of now (lastTime s)) p = q" "age q < PULSE_LIFETIME"
  shows "pulses (step (AnimationFrame now) s) = [q]"
    and "lastTime (step (AnimationFrame now) s) = now"
    and "frame_requested (step (AnimationFrame now) s)"
    and "cssWidth (step (AnimationFrame now) s) = cssWidth s"
    and "cssHeight (step (AnimationFrame now) s) = cssHeight s"
proof -
  from assms(2,4) have "list_all (paintable (cssWidth s) (cssHeight s)) (pulses s)" by simp
  moreover from assms(5,6) have "alive q"
    using alive_advance [of "deltaSec_of now (lastTime s)" p] by simp
  ultimately have "step (AnimationFrame now) s =
      s\<lparr>lastTime := now, pulses := [q], frame_requested := True\<rparr>"
    using animate_completes [OF assms(3)] assms(1,2,5) by simp
  then show "pulses (step (AnimationFrame now) s) = [q]"
    and "lastTime (step (AnimationFrame now) s) = now"
    and "frame_requested (step (AnimationFrame now) s)"
    and "cssWidth (step (AnimationFrame now) s) = cssWidth s"
    and "cssHeight (step (AnimationFrame now) s) = cssHeight s"
    by simp_all
qed

lemma paintable_centre:
  "paintable 800 600
     \<lparr>normX = Finite (1 / 2), normY = Finite (1 / 2), rgb = c, radius = r, age = a\<rparr>
   \<longleftrightarrow> 0 \<le> r"
  by (simp add: paintable_def to_double_def example_roundings)

lemma after_one_frame_fields:
  "pulses after_one_frame =
     [\<lparr>normX = Finite (1 / 2), normY = Finite (1 / 2),
       rgb = \<lparr>rgb_r = 255, rgb_g = 0, rgb_b = 0\<rparr>,
       radius = 7566047373982433 / 1125899906842624, age = 1152921504606847 / 72057594037927936\<rparr>]"
  "lastTime after_one_frame = 16" "frame_requested after_one_frame"
  "cssWidth after_one_frame = 800" "cssHeight after_one_frame = 600"
proof -
  let ?p = "\<lparr>normX = Finite (1 / 2), normY = Finite (1 / 2),
       rgb = \<lparr>rgb_r = 255, rgb_g = 0, rgb_b = 0\<rparr>,
       radius = 0, age = 0\<rparr>"
  let ?q = "\<lparr>normX = Finite (1 / 2), normY = Finite (1 / 2),
       rgb = \<lparr>rgb_r = 255, rgb_g = 0, rgb_b = 0\<rparr>,
       radius = 7566047373982433 / 1125899906842624, age = 1152921504606847 / 72057594037927936\<rparr>"
  have 1: "frame_requested one_pulse_client" and 2: "pulses one_pulse_client = [?p]"
    and 3: "lastTime one_pulse_client \<le> 16"
    and 4: "paintable (cssWidth one_pulse_client) (cssHeight one_pulse_client) ?p"
    by (simp_all add: one_pulse_client_fields paintable_centre)
  have 5: "advance (deltaSec_of 16 (lastTime one_pulse_client)) ?p = ?q"
    by (simp add: one_pulse_client_fields deltaSec_of_def MAX_STEP_value advance_def GROWTH_RATE_def
                  example_roundings)
  have 6: "age ?q < PULSE_LIFETIME" by (simp add: PULSE_LIFETIME_value)
  note f = frame_on_one_pulse [OF 1 2 3 4 5 6]
  from f show "pulses after_one_frame = [?q]" "lastTime after_one_frame = 16" "frame_requested after_one_frame"
    "cssWidth after_one_frame = 800" "cssHeight after_one_frame = 600"
    by (simp_all add: after_one_frame_def one_pulse_client_fields)
qed

lemma after_two_frames_fields:
  "pulses after_two_frames =
     [\<lparr>normX = Finite (1 / 2), normY = Finite (1 / 2),
       rgb = \<lparr>rgb_r = 255, rgb_g = 0, rgb_b = 0\<rparr>,
       radius = 7566047373982433 / 562949953421312, age = 1152921504606847 / 36028797018963968\<rparr>]"
  "lastTime after_two_frames = 32" "frame_requested after_two_frames"
  "cssWidth after_two_frames = 800" "cssHeight after_two_frames = 600"
proof -
  let ?p = "\<lparr>normX = Finite (1 / 2), normY = Finite (1 / 2),
       rgb = \<lparr>rgb_r = 255, rgb_g = 0, rgb_b = 0\<rparr>,
       radius = 7566047373982433 / 1125899906842624, age = 1152921504606847 / 72057594037927936\<rparr>"
  let ?q = "\<lparr>normX = Finite (1 / 2), normY = Finite (1 / 2),
       rgb = \<lparr>rgb_r = 255, rgb_g = 0, rgb_b = 0\<rparr>,
       radius = 7566047373982433 / 562949953421312, age = 1152921504606847 / 36028797018963968\<rparr>"
  have 1: "frame_requested after_one_frame" and 2: "pulses after_one_frame = [?p]"
    and 3: "lastTime after_one_frame \<le> 32"
    and 4: "paintable (cssWidth after_one_frame) (cssHeight after_one_frame) ?p"
    by (simp_all add: after_one_frame_fields paintable_centre)
  have 5: "advance (deltaSec_of 32 (lastTime after_one_frame)) ?p = ?q"
    by (simp add: after_one_frame_fields deltaSec_of_def MAX_STEP_value advance_def GROWTH_RATE_def
                  example_roundings)
  have 6: "age ?q < PULSE_LIFETIME" by (simp add: PULSE_LIFETIME_value)
  note f = frame_on_one_pulse [OF 1 2 3 4 5 6]
  from f show "pulses after_two_frames = [?q]" "lastTime after_two_frames = 32" "frame_requested after_two_frames"
    "cssWidth after_two_frames = 800" "cssHeight after_two_frames = 600"
    by (simp_all add: after_two_frames_def after_one_frame_fields)
qed

lemma after_three_frames_fields:
  "pulses after_three_frames =
     [\<lparr>normX = Finite (1 / 2), normY = Finite (1 / 2),
       rgb = \<lparr>rgb_r = 255, rgb_g = 0, rgb_b = 0\<rparr>,
       radius = 5674535530486825 / 281474976710656, age = 3458764513820541 / 72057594037927936\<rparr>]"
  "lastTime after_three_frames = 48" "frame_requested after_three_frames"
  "cssWidth after_three_frames = 800" "cssHeight after_three_frames = 600"
proof -
  let ?p = "\<lparr>normX = Finite (1 / 2), normY = Finite (1 / 2),
       rgb = \<lparr>rgb_r = 255, rgb_g = 0, rgb_b = 0\<rparr>,
       radius = 7566047373982433 / 562949953421312, age = 1152921504606847 / 36028797018963968\<rparr>"
  let ?q = "\<lparr>normX = Finite (1 / 2), normY = Finite (1 / 2),
       rgb = \<lparr>rgb_r = 255, rgb_g = 0, rgb_b = 0\<rparr>,
       radius = 5674535530486825 / 281474976710656, age = 3458764513820541 / 72057594037927936\<rparr>"
  have 1: "frame_requested after_two_frames" and 2: "pulses after_two_frames = [?p]"
    and 3: "lastTime after_two_frames \<le> 48"
    and 4: "paintable (cssWidth after_two_frames) (cssHeight after_two_frames) ?p"
    by (simp_all add: after_two_frames_fields paintable_centre)
  have 5: "advance (deltaSec_of 48 (lastTime after_two_frames)) ?p = ?q"
    by (simp add: after_two_frames_fields deltaSec_of_def MAX_STEP_value advance_def GROWTH_RATE_def
                  example_roundings)
  have 6: "age ?q < PULSE_LIFETIME" by (simp add: PULSE_LIFETIME_value)
  note f = frame_on_one_pulse [OF 1 2 3 4 5 6]
  from f show "pulses after_three_frames = [?q]" "lastTime after_three_frames = 48" "frame_requested after_three_frames"
    "cssWidth after_three_frames = 800" "cssHeight after_three_frames = 600"
    by (simp_all add: after_three_frames_def after_two_frames_fields)
qed

lemma after_one_gap_fields:
  "pulses after_one_gap =
     [\<lparr>normX = Finite (1 / 2), normY = Finite (1 / 2),
       rgb = \<lparr>rgb_r = 255, rgb_g = 0, rgb_b = 0\<rparr>,
       radius = 21, age = 3602879701896397 / 72057594037927936\<rparr>]"
  "lastTime after_one_gap = 1000" "frame_requested after_one_gap"
  "cssWidth after_one_gap = 800" "cssHeight after_one_gap = 600"
proof -
  let ?p = "\<lparr>normX = Finite (1 / 2), normY = Finite (1 / 2),
       rgb = \<lparr>rgb_r = 255, rgb_g = 0, rgb_b = 0\<rparr>,
       radius = 0, age = 0\<rparr>"
  let ?q = "\<lparr>normX = Finite (1 / 2), normY = Finite (1 / 2),
       rgb = \<lparr>rgb_r = 255, rgb_g = 0, rgb_b = 0\<rparr>,
       radius = 21, age = 3602879701896397 / 72057594037927936\<rparr>"
  have 1: "frame_requested one_pulse_client" and 2: "pulses one_pulse_client = [?p]"
    and 3: "lastTime one_pulse_client \<le> 1000"
    and 4: "paintable (cssWidth one_pulse_client) (cssHeight one_pulse_client) ?p"
    by (simp_all add: one_pulse_client_fields paintable_centre)
  have 5: "advance (deltaSec_of 1000 (lastTime one_pulse_client)) ?p = ?q"
    by (simp add: one_pulse_client_fields deltaSec_of_def MAX_STEP_value advance_def GROWTH_RATE_def
                  example_roundings)
  have 6: "age ?q < PULSE_LIFETIME" by (simp add: PULSE_LIFETIME_value)
  note f = frame_on_one_pulse [OF 1 2 3 4 5 6]
  from f show "pulses after_one_gap = [?q]" "lastTime after_one_gap = 1000" "frame_requested after_one_gap"
    "cssWidth after_one_gap = 800" "cssHeight after_one_gap = 600"
    by (simp_all add: after_one_gap_def one_pulse_client_fields)
qed

lemma after_two_gaps_fields:
  "pulses after_two_gaps =
     [\<lparr>normX = Finite (1 / 2), normY = Finite (1 / 2),
       rgb = \<lparr>rgb_r = 255, rgb_g = 0, rgb_b = 0\<rparr>,
       radius = 42, age = 3602879701896397 / 36028797018963968\<rparr>]"
  "lastTime after_two_gaps = 2000" "frame_requested after_two_gaps"
  "cssWidth after_two_gaps = 800" "cssHeight after_two_gaps = 600"
proof -
  let ?p = "\<lparr>normX = Finite (1 / 2), normY = Finite (1 / 2),
       rgb = \<lparr>rgb_r = 255, rgb_g = 0, rgb_b = 0\<rparr>,
       radius = 21, age = 3602879701896397 / 72057594037927936\<rparr>"
  let ?q = "\<lparr>normX = Finite (1 / 2), normY = Finite (1 / 2),
       rgb = \<lparr>rgb_r = 255, rgb_g = 0, rgb_b = 0\<rparr>,
       radius = 42, age = 3602879701896397 / 36028797018963968\<rparr>"
  have 1: "frame_requested after_one_gap" and 2: "pulses after_one_gap = [?p]"
    and 3: "lastTime after_one_gap \<le> 2000"
    and 4: "paintable (cssWidth after_one_gap) (cssHeight after_one_gap) ?p"
    by (simp_all add: after_one_gap_fields paintable_centre)
  have 5: "advance (deltaSec_of 2000 (lastTime after_one_gap)) ?p = ?q"
    by (simp add: after_one_gap_fields deltaSec_of_def MAX_STEP_value advance_def GROWTH_RATE_def
                  example_roundings)
  have 6: "age ?q < PULSE_LIFETIME" by (simp add: PULSE_LIFETIME_value)
  note f = frame_on_one_pulse [OF 1 2 3 4 5 6]
  from f show "pulses after_two_gaps = [?q]" "lastTime after_two_gaps = 2000" "frame_requested after_two_gaps"
    "cssWidth after_two_gaps = 800" "cssHeight after_two_gaps = 600"
    by (simp_all add: after_two_gaps_def after_one_gap_fields)
qed

lemma after_three_gaps_fields:
  "pulses after_three_gaps =
     [\<lparr>normX = Finite (1 / 2), normY = Finite (1 / 2),
       rgb = \<lparr>rgb_r = 255, rgb_g = 0, rgb_b = 0\<rparr>,
       radius = 63, age = 1351079888211149 / 9007199254740992\<rparr>]"
  "lastTime after_three_gaps = 3000" "frame_requested after_three_gaps"
  "cssWidth after_three_gaps = 800" "cssHeight after_three_gaps = 600"
proof -
  let ?p = "\<lparr>normX = Finite (1 / 2), normY = Finite (1 / 2),
       rgb = \<lparr>rgb_r = 255, rgb_g = 0, rgb_b = 0\<rparr>,
       radius = 42, age = 3602879701896397 / 36028797018963968\<rparr>"
  let ?q = "\<lparr>normX = Finite (1 / 2), normY = Finite (1 / 2),
       rgb = \<lparr>rgb_r = 255, rgb_g = 0, rgb_b = 0\<rparr>,
       radius = 63, age = 1351079888211149 / 9007199254740992\<rparr>"
  have 1: "frame_requested after_two_gaps" and 2: "pulses after_two_gaps = [?p]"
    and 3: "lastTime after_two_gaps \<le> 3000"
    and 4: "paintable (cssWidth after_two_gaps) (cssHeight after_two_gaps) ?p"
    by (simp_all add: after_two_gaps_fields paintable_centre)
  have 5: "advance (deltaSec_of 3000 (lastTime after_two_gaps)) ?p = ?q"
    by (simp add: after_two_gaps_fields deltaSec_of_def MAX_STEP_value advance_def GROWTH_RATE_def
                  example_roundings)
  have 6: "age ?q < PULSE_LIFETIME" by (simp add: PULSE_LIFETIME_value)
  note f = frame_on_one_pulse [OF 1 2 3 4 5 6]
  from f show "pulses after_three_gaps = [?q]" "lastTime after_three_gaps = 3000" "frame_requested after_three_gaps"
    "cssWidth after_three_gaps = 800" "cssHeight after_three_gaps = 600"
    by (simp_all add: after_three_gaps_def after_two_gaps_fields)
qed

section \<open>Opacity, removal and growth\<close>



text \<open>
  C6. The step of a frame is the time since the previous frame, which is the time the
  previous frame recorded, in seconds and at most \<open>MAX_STEP\<close>, the double of \<open>0.05\<close>,
  however long the gap. A frame gives each pulse it reaches, if the pulse stays, the
  double nearest to its age plus the step as its age, and as its radius the double
  nearest to its radius plus the rounded product of \<open>420\<close> and the step; it reaches every
  pulse when time has not run backwards and every pulse has a finite centre and a
  radius that is not negative. The new radius differs from the radius plus \<open>420\<close> times
  the step by at most half a unit in the last place of the product and half a unit in
  the last place of the sum.
\<close>

theorem radius_grows_with_clamped_time:
  "deltaSec_of now (lastTime s) = min (nearest (nearest (now - lastTime s) / 1000)) MAX_STEP
   \<and> deltaSec_of now (lastTime s) \<le> MAX_STEP
   \<and> MAX_STEP = 3602879701896397 / 72057594037927936
   \<and> lastTime (fst (animate now s)) = now
   \<and> deltaSec_of later (lastTime (fst (animate now s))) = deltaSec_of later now
   \<and> (\<exists>k\<le>length (pulses s).
        pulses (fst (animate now s)) =
          take k (pulses s) @
          map (\<lambda>p. p\<lparr>age := nearest (age p + deltaSec_of now (lastTime s)),
                      radius := nearest (radius p +
                                  nearest (420 * deltaSec_of now (lastTime s)))\<rparr>)
            (filter (\<lambda>p. nearest (age p + deltaSec_of now (lastTime s)) < PULSE_LIFETIME)
               (drop k (pulses s))))
   \<and> (lastTime s \<le> now \<and> list_all (paintable (cssWidth s) (cssHeight s)) (pulses s) \<longrightarrow>
        pulses (fst (animate now s)) =
          map (\<lambda>p. p\<lparr>age := nearest (age p + deltaSec_of now (lastTime s)),
                      radius := nearest (radius p +
                                  nearest (420 * deltaSec_of now (lastTime s)))\<rparr>)
            (filter (\<lambda>p. nearest (age p + deltaSec_of now (lastTime s)) < PULSE_LIFETIME)
               (pulses s)))
   \<and> \<bar>nearest (r + nearest (420 * dt)) - (r + 420 * dt)\<bar>
       \<le> pow2 (binade (420 * dt) - 52) / 2 + pow2 (binade (r + nearest (420 * dt)) - 52) / 2"
proof -
  let ?dt = "deltaSec_of now (lastTime s)"
  let ?adv = "\<lambda>p. p\<lparr>age := nearest (age p + ?dt),
                     radius := nearest (radius p + nearest (420 * ?dt))\<rparr>"
  have adv: "advance ?dt = ?adv" by (rule advance_fields)
  have f: "filter (\<lambda>p. age p < PULSE_LIFETIME) (map ?adv qs) =
           map ?adv (filter (\<lambda>p. nearest (age p + ?dt) < PULSE_LIFETIME) qs)" for qs
    by (induction qs) simp_all
  have part: "\<exists>k\<le>length (pulses s). pulses (fst (animate now s)) =
      take k (pulses s) @
      map ?adv (filter (\<lambda>p. nearest (age p + ?dt) < PULSE_LIFETIME) (drop k (pulses s)))"
    using animate_pulses [of s now, unfolded survivors, unfolded adv, unfolded f] .
  have whole: "pulses (fst (animate now s)) =
      map ?adv (filter (\<lambda>p. nearest (age p + ?dt) < PULSE_LIFETIME) (pulses s))"
    if "lastTime s \<le> now" "list_all (paintable (cssWidth s) (cssHeight s)) (pulses s)"
    using animate_completes [OF that, unfolded survivors, unfolded adv, unfolded f] by simp
  have "\<bar>nearest (r + nearest (420 * dt)) - (r + nearest (420 * dt))\<bar>
          \<le> pow2 (binade (r + nearest (420 * dt)) - 52) / 2"
    and "\<bar>nearest (420 * dt) - 420 * dt\<bar> \<le> pow2 (binade (420 * dt) - 52) / 2"
    by (rule nearest_error)+
  then have bound: "\<bar>nearest (r + nearest (420 * dt)) - (r + 420 * dt)\<bar>
       \<le> pow2 (binade (420 * dt) - 52) / 2 + pow2 (binade (r + nearest (420 * dt)) - 52) / 2"
    by linarith
  have d: "?dt = min (nearest (nearest (now - lastTime s) / 1000)) MAX_STEP"
    by (simp add: deltaSec_of_def)
  have next_step: "deltaSec_of later (lastTime (fst (animate now s))) = deltaSec_of later now"
    by (simp only: lastTime_animate)
  from whole have whole':
    "lastTime s \<le> now \<and> list_all (paintable (cssWidth s) (cssHeight s)) (pulses s) \<longrightarrow>
       pulses (fst (animate now s)) =
         map ?adv (filter (\<lambda>p. nearest (age p + ?dt) < PULSE_LIFETIME) (pulses s))"
    by blast
  show ?thesis
    by (intro conjI d deltaSec_le MAX_STEP_value lastTime_animate next_step part whole' bound)
qed

theorem radius_grows_with_clamped_time_witness:
  "lastTime one_pulse_client \<le> 16
   \<and> list_all (paintable (cssWidth one_pulse_client) (cssHeight one_pulse_client))
       (pulses one_pulse_client)
   \<and> deltaSec_of 16 (lastTime one_pulse_client) = 1152921504606847 / 72057594037927936
   \<and> pulses (fst (animate 16 one_pulse_client)) =
       [\<lparr>normX = Finite (1 / 2), normY = Finite (1 / 2),
         rgb = \<lparr>rgb_r = 255, rgb_g = 0, rgb_b = 0\<rparr>,
         radius = 7566047373982433 / 1125899906842624,
         age = 1152921504606847 / 72057594037927936\<rparr>]"
proof -
  have h: "lastTime one_pulse_client \<le> 16
      \<and> list_all (paintable (cssWidth one_pulse_client) (cssHeight one_pulse_client))
          (pulses one_pulse_client)"
    by (simp add: one_pulse_client_fields paintable_centre)
  have d: "deltaSec_of 16 (lastTime one_pulse_client) = 1152921504606847 / 72057594037927936"
    by (simp add: one_pulse_client_fields deltaSec_of_def MAX_STEP_value example_roundings)
  from radius_grows_with_clamped_time [of 16 one_pulse_client 0 0 0, THEN conjunct2,
      THEN conjunct2, THEN conjunct2, THEN conjunct2, THEN conjunct2, THEN conjunct2,
      THEN conjunct1, THEN mp, OF h]
  have "pulses (fst (animate 16 one_pulse_client)) =
          [\<lparr>normX = Finite (1 / 2), normY = Finite (1 / 2),
            rgb = \<lparr>rgb_r = 255, rgb_g = 0, rgb_b = 0\<rparr>,
            radius = 7566047373982433 / 1125899906842624,
            age = 1152921504606847 / 72057594037927936\<rparr>]"
    unfolding d by (simp add: one_pulse_client_fields example_roundings PULSE_LIFETIME_value)
  with h d show ?thesis by simp
qed

text \<open>
  Against C6 as the specification words it: the increase of a radius is not exactly the
  product, and a radius is not exactly \<open>420\<close> times the age. With frames every 16 milliseconds the third frame raises the radius
  from \<open>13.44\<close> to \<open>20.16\<close>, by more than \<open>420\<close> times the step of \<open>0.016\<close>, as a real
  product or as a double one. With frames a second apart each step is \<open>MAX_STEP\<close> and
  after three the radius is \<open>63\<close>, the age \<open>0.15000000000000002\<close>, and \<open>420\<close> times the
  age is more than \<open>63\<close>, again as a real product or as a double one.
\<close>

theorem radius_increase_is_rounded:
  "map radius (pulses after_two_frames) = [7566047373982433 / 562949953421312]
   \<and> map radius (pulses after_three_frames) = [5674535530486825 / 281474976710656]
   \<and> deltaSec_of 48 (lastTime after_two_frames) = 1152921504606847 / 72057594037927936
   \<and> radius (hd (pulses after_three_frames)) - radius (hd (pulses after_two_frames))
       > GROWTH_RATE * deltaSec_of 48 (lastTime after_two_frames)
   \<and> radius (hd (pulses after_three_frames)) - radius (hd (pulses after_two_frames))
       > nearest (GROWTH_RATE * deltaSec_of 48 (lastTime after_two_frames))
   \<and> deltaSec_of 3000 (lastTime after_two_gaps) = MAX_STEP
   \<and> map radius (pulses after_three_gaps) = [63]
   \<and> map age (pulses after_three_gaps) = [1351079888211149 / 9007199254740992]
   \<and> radius (hd (pulses after_three_gaps)) < GROWTH_RATE * age (hd (pulses after_three_gaps))
   \<and> radius (hd (pulses after_three_gaps))
       < nearest (GROWTH_RATE * age (hd (pulses after_three_gaps)))"
  by (simp add: after_two_frames_fields after_three_frames_fields after_two_gaps_fields
                after_three_gaps_fields deltaSec_of_def MAX_STEP_value GROWTH_RATE_def
                example_roundings)

section \<open>Taps and peer pulses\<close>

lemma sendPulse_string:
  "sendPulse nx ny (JStr c) s =
     Inr (if socket s = Some OPEN
          then s\<lparr>pulses := pulses s @ [new_pulse nx ny (channels c)],
                 sent := sent s @ [pulse_json (wire_number nx) (wire_number ny) c]\<rparr>
          else s\<lparr>pulses := pulses s @ [new_pulse nx ny (channels c)]\<rparr>)"
  by (simp add: sendPulse_def spawnPulse_string and_then_def pulse_message_def stringify_number
                pulse_json_def
           del: hexToRgb.simps)

lemma inside_iff:
  assumes "0 \<le> cp_radius (picker s)"
  shows "isInsideColorPicker s x y \<longleftrightarrow>
     (x - null_as_zero (cp_x (picker s))) ^ 2 + (y - null_as_zero (cp_y (picker s))) ^ 2
       \<le> (cp_radius (picker s)) ^ 2"
proof -
  let ?a = "(x - null_as_zero (cp_x (picker s))) ^ 2 + (y - null_as_zero (cp_y (picker s))) ^ 2"
  have "sqrt ?a \<le> cp_radius (picker s) \<longleftrightarrow> sqrt ?a \<le> sqrt ((cp_radius (picker s)) ^ 2)"
    using assms by simp
  also have "\<dots> \<longleftrightarrow> ?a \<le> (cp_radius (picker s)) ^ 2"
    by (rule real_sqrt_le_iff)
  finally show ?thesis by (simp add: isInsideColorPicker_def Let_def power2_eq_square)
qed

text \<open>A pointer-down and a touch-start whose first touch is outside the colour picker.\<close>

lemma handlePointerDown_tap:
  assumes "\<not> isInsideColorPicker s (pos_x (getPointerPosition s event))
                                    (pos_y (getPointerPosition s event))"
  shows "handlePointerDown event s =
     sendPulse (pos_normX (getPointerPosition s event)) (pos_normY (getPointerPosition s event))
       (JStr (input_value (picker s))) s"
  using assms by (simp add: handlePointerDown_def Let_def)












section \<open>Coordinates of the pulses\<close>

lemma outside_frame_fields: "pulse_fields outside_frame = Some (2, - 1, ''#ff0000'')"
  by (simp add: outside_frame_def json_member_def)

lemma fractional_client_fields:
  "canvas_width fractional_client = 128" "canvas_height fractional_client = 128"
  "cssWidth fractional_client = 513 / 4" "cssHeight fractional_client = 513 / 4"
  "deviceRatio fractional_client = 1"
  "bounding_rect fractional_client =
     \<lparr>rect_left = 0, rect_top = 0, rect_width = 513 / 4, rect_height = 513 / 4\<rparr>"
  "pulses fractional_client = []" "sent fractional_client = []"
  "socket fractional_client = Some CONNECTING" "lastTime fractional_client = 0"
  "frame_requested fractional_client"
  "cp_x (picker fractional_client) = Some 44" "cp_y (picker fractional_client) = Some (337 / 4)"
  "cp_radius (picker fractional_client) = 20"
  "input_value (picker fractional_client) = ''#3399ff''"
  by (simp_all add: fractional_client_def init_def connectWebSocket_def resizeCanvas_def
                    positionColorPicker_def Math_round_def Let_def null_as_zero_def
                    example_roundings)

lemma collapsed_client_fields:
  "canvas_width collapsed_client = 0" "canvas_height collapsed_client = 0"
  "cssWidth collapsed_client = 0" "cssHeight collapsed_client = 0"
  "pulses collapsed_client = []" "lastTime collapsed_client = 0"
  "frame_requested collapsed_client"
  by (simp_all add: collapsed_client_def init_def connectWebSocket_def resizeCanvas_def
                    positionColorPicker_def Math_round_def Let_def null_as_zero_def
                    example_roundings)

lemma clamped_outside:
  "clamp01 (literal_value 2) = Finite 1" "clamp01 (literal_value (- 1)) = Finite 0"
  by (simp_all add: clamp01_def literal_values)

text \<open>The frame with coordinates 2 and -1 on three pages.\<close>

lemma outside_frame_pulses:
  "pulses (step (SocketMessage outside_frame) example_client) =
     [\<lparr>normX = Finite 1, normY = Finite 0, rgb = \<lparr>rgb_r = 255, rgb_g = 0, rgb_b = 0\<rparr>,
       radius = 0, age = 0\<rparr>]"
  "pulses (step (SocketMessage outside_frame) fractional_client) =
     [\<lparr>normX = Finite 1, normY = Finite 0, rgb = \<lparr>rgb_r = 255, rgb_g = 0, rgb_b = 0\<rparr>,
       radius = 0, age = 0\<rparr>]"
  "pulses (step (SocketMessage outside_frame) collapsed_client) =
     [\<lparr>normX = NaN, normY = NaN, rgb = \<lparr>rgb_r = 255, rgb_g = 0, rgb_b = 0\<rparr>,
       radius = 0, age = 0\<rparr>]"
  by (simp_all add: client_on_message_eq outside_frame_fields renormalized_def clamped_outside
                    example_client_fields fractional_client_fields collapsed_client_fields
                    to_double_def example_roundings new_pulse_def channels_ff0000)

lemma edge_tap_position:
  "getPointerPosition fractional_client edge_tap =
     \<lparr>pos_x = 1025 / 8, pos_y = 64,
      pos_normX = Finite (1025 / 1024), pos_normY = Finite (1 / 2)\<rparr>"
  by (simp add: getPointerPosition_def fractional_client_fields edge_tap_def to_double_def
                example_roundings)

lemma edge_tap_outside: "\<not> isInsideColorPicker fractional_client (1025 / 8) 64"
  by (simp add: inside_iff fractional_client_fields null_as_zero_def power2_eq_square)

lemma edge_pointer_down:
  "step (PointerDown edge_tap) fractional_client =
     fractional_client
       \<lparr>pulses := [\<lparr>normX = Finite (1025 / 1024), normY = Finite (1 / 2),
                     rgb = \<lparr>rgb_r = 51, rgb_g = 153, rgb_b = 255\<rparr>, radius = 0, age = 0\<rparr>]\<rparr>"
  by (simp add: or_unchanged_def handlePointerDown_tap edge_tap_position edge_tap_outside
                sendPulse_string fractional_client_fields new_pulse_def channels_3399ff)

lemma first_step: "deltaSec_of 16 0 = 1152921504606847 / 72057594037927936"
  by (simp add: deltaSec_of_def MAX_STEP_value example_roundings)

lemma first_step_alive: "\<not> 1 \<le> lifeT_at (1152921504606847 / 72057594037927936)"
  using lifeT_at_before [of "1152921504606847 / 72057594037927936"]
  by (simp add: PULSE_LIFETIME_value)

text \<open>
  C3. On a page whose canvas is 128.25 CSS pixels wide the backing store is 128 pixels
  wide. A pointer-down at \<open>(128.125, 64)\<close>, on the canvas and outside the colour picker,
  spawns a pulse whose \<open>normX\<close> is \<open>128.125 / 128 = 1.0009765625\<close>: the collection then
  holds a pulse outside the unit square, and the next frame draws it at
  \<open>x = 128.375244140625\<close>, beyond the width of the canvas. The frame
  \<open>{"type":"pulse","xNorm":2,"yNorm":-1,"color":"#ff0000"}\<close> of a peer, on the same page,
  spawns a pulse at \<open>(1, 0)\<close>: peer coordinates are clamped, those of a tap are not.
\<close>

theorem local_tap_beyond_unit_square:
  "cssWidth fractional_client = 513 / 4
   \<and> canvas_width fractional_client = 128
   \<and> \<not> isInsideColorPicker fractional_client (1025 / 8) 64
   \<and> pulses (step (PointerDown edge_tap) fractional_client) =
       [\<lparr>normX = Finite (1025 / 1024), normY = Finite (1 / 2),
         rgb = \<lparr>rgb_r = 51, rgb_g = 153, rgb_b = 255\<rparr>, radius = 0, age = 0\<rparr>]
   \<and> \<not> list_all in_unit_square (pulses (step (PointerDown edge_tap) fractional_client))
   \<and> map draw_x (fst (snd (animate 16 (step (PointerDown edge_tap) fractional_client)))) =
       [Finite (525825 / 4096)]
   \<and> cssWidth (step (PointerDown edge_tap) fractional_client) < 525825 / 4096
   \<and> pulses (step (SocketMessage outside_frame) fractional_client) =
       [\<lparr>normX = Finite 1, normY = Finite 0, rgb = \<lparr>rgb_r = 255, rgb_g = 0, rgb_b = 0\<rparr>,
         radius = 0, age = 0\<rparr>]
   \<and> list_all in_unit_square (pulses (step (SocketMessage outside_frame) fractional_client))"
proof -
  have d: "map draw_x (fst (snd (animate 16 (step (PointerDown edge_tap) fractional_client)))) =
       [Finite (525825 / 4096)]"
    unfolding edge_pointer_down
    by (simp add: animate_def fractional_client_fields first_step first_step_alive Let_def
                  advance_def GROWTH_RATE_def createRadialGradient_def draw_pulse_def
                  to_double_def example_roundings)
  have p: "pulses (step (PointerDown edge_tap) fractional_client) =
       [\<lparr>normX = Finite (1025 / 1024), normY = Finite (1 / 2),
         rgb = \<lparr>rgb_r = 51, rgb_g = 153, rgb_b = 255\<rparr>, radius = 0, age = 0\<rparr>]"
    "cssWidth (step (PointerDown edge_tap) fractional_client) < 525825 / 4096"
    unfolding edge_pointer_down by (simp_all add: fractional_client_fields)
  have u: "\<not> list_all in_unit_square (pulses (step (PointerDown edge_tap) fractional_client))"
    "list_all in_unit_square (pulses (step (SocketMessage outside_frame) fractional_client))"
    unfolding p(1) outside_frame_pulses by (simp_all add: in_unit_square_def)
  show ?thesis
    by (intro conjI d p u edge_tap_outside outside_frame_pulses fractional_client_fields)
qed

text \<open>
  C4. On a page whose canvas has no extent, the frame
  \<open>{"type":"pulse","xNorm":2,"yNorm":-1,"color":"#ff0000"}\<close> of a peer is accepted and its
  coordinates are clamped to 1 and 0, multiplied by the width and height 0 of the canvas,
  and divided by them: the pulse that is spawned has the coordinates \<open>NaN\<close>. The next
  frame does not draw it: \<open>createRadialGradient\<close> throws a \<open>TypeError\<close>, the frame ends
  without requesting the next one, and later frames no longer run. On the example page
  the same frame spawns a pulse at \<open>(1, 0)\<close>.
\<close>

theorem peer_pulse_on_collapsed_canvas:
  "canvas_width collapsed_client = 0 \<and> canvas_height collapsed_client = 0
   \<and> pulse_fields outside_frame = Some (2, - 1, ''#ff0000'')
   \<and> pulses (step (SocketMessage outside_frame) example_client) =
       [\<lparr>normX = Finite 1, normY = Finite 0, rgb = \<lparr>rgb_r = 255, rgb_g = 0, rgb_b = 0\<rparr>,
         radius = 0, age = 0\<rparr>]
   \<and> pulses (step (SocketMessage outside_frame) collapsed_client) =
       [\<lparr>normX = NaN, normY = NaN, rgb = \<lparr>rgb_r = 255, rgb_g = 0, rgb_b = 0\<rparr>,
         radius = 0, age = 0\<rparr>]
   \<and> fst (snd (animate 16 (step (SocketMessage outside_frame) collapsed_client))) = []
   \<and> snd (snd (animate 16 (step (SocketMessage outside_frame) collapsed_client))) =
       Some TypeError
   \<and> \<not> frame_requested
         (run [SocketMessage outside_frame, AnimationFrame 16] collapsed_client)
   \<and> run [SocketMessage outside_frame, AnimationFrame 16, AnimationFrame 32] collapsed_client =
       run [SocketMessage outside_frame, AnimationFrame 16] collapsed_client"
proof -
  let ?s = "step (SocketMessage outside_frame) collapsed_client"
  have s: "?s = collapsed_client
      \<lparr>pulses := [\<lparr>normX = NaN, normY = NaN, rgb = \<lparr>rgb_r = 255, rgb_g = 0, rgb_b = 0\<rparr>,
                    radius = 0, age = 0\<rparr>]\<rparr>"
    by (simp add: client_on_message_eq outside_frame_fields renormalized_def clamped_outside
                  collapsed_client_fields to_double_def example_roundings new_pulse_def
                  channels_ff0000)
  have a: "fst (snd (animate 16 ?s)) = []" "snd (snd (animate 16 ?s)) = Some TypeError"
    "\<not> frame_requested (fst (animate 16 ?s))"
    unfolding s
    by (simp_all add: animate_def collapsed_client_fields first_step first_step_alive Let_def
                      advance_def GROWTH_RATE_def createRadialGradient_def example_roundings)
  have f: "frame_requested ?s" unfolding s by (simp add: collapsed_client_fields)
  have r: "\<not> frame_requested (run [SocketMessage outside_frame, AnimationFrame 16] collapsed_client)"
    using a(3) f by (simp del: step.simps(2) add: )
  have r2: "run [SocketMessage outside_frame, AnimationFrame 16, AnimationFrame 32]
               collapsed_client =
            run [SocketMessage outside_frame, AnimationFrame 16] collapsed_client"
    using r by (simp del: step.simps(2))
  show ?thesis
    by (intro conjI a(1,2) r r2 outside_frame_pulses outside_frame_fields
              collapsed_client_fields)
qed

end
